theory Spec2Isabelle
  imports Complex_Main "HOL-Library.Sublist" "HOL-Library.AList"
begin

section \<open>JavaScript values\<close>

text \<open>
  A JavaScript string is a sequence of UTF-16 code units; \<open>length\<close>, \<open>slice\<close> and
  \<open>padStart\<close> count code units. String literals of the source are ASCII and are written
  through \<open>str\<close>.
\<close>

type_synonym jsstring = "nat list"

definition str :: "string \<Rightarrow> jsstring" where
  "str s = map of_char s"

text \<open>
  The result of \<open>Number(v)\<close>: a finite number, or one of NaN, Infinity and -Infinity,
  which \<open>Number.isFinite\<close> does not tell apart.
\<close>

datatype jsnumber = NotFinite | Finite real

text \<open>
  The values \<open>JSON.parse\<close> yields, with \<open>undefined\<close> for what a property read
  gives on a missing key. An array carries, besides its elements, the named properties
  assigned to it (\<open>mergeResponses\<close> may assign \<open>item\<close> on an array). Numbers are the
  integers they denote (counts, amounts, identifiers): \<open>String\<close> of them is the decimal
  numeral. Property names are the ASCII names the source reads.
\<close>

datatype jsval =
    JUndefined
  | JNull
  | JBool bool
  | JNum int
  | JStr jsstring
  | JArr "jsval list" "(string \<times> jsval) list"
  | JObj "(string \<times> jsval) list"

fun truthy :: "jsval \<Rightarrow> bool" where
  "truthy JUndefined = False"
| "truthy JNull = False"
| "truthy (JBool b) = b"
| "truthy (JNum n) = (n \<noteq> 0)"
| "truthy (JStr s) = (s \<noteq> [])"
| "truthy (JArr xs ps) = True"
| "truthy (JObj ps) = True"

text \<open>\<open>a || b\<close> and \<open>a ?? b\<close>.\<close>

definition js_or :: "jsval \<Rightarrow> jsval \<Rightarrow> jsval" where
  "js_or a b = (if truthy a then a else b)"

definition nullish :: "jsval \<Rightarrow> bool" where
  "nullish v = (v = JUndefined \<or> v = JNull)"

definition js_coalesce :: "jsval \<Rightarrow> jsval \<Rightarrow> jsval" where
  "js_coalesce a b = (if nullish a then b else a)"

text \<open>
  \<open>x?.k\<close> for the property names of the source (never an index, \<open>length\<close> or a
  prototype method): \<open>undefined\<close> on \<open>null\<close>, \<open>undefined\<close> and the primitives.
\<close>

fun getProp :: "jsval \<Rightarrow> string \<Rightarrow> jsval" where
  "getProp (JObj ps) k = (case map_of ps k of Some v \<Rightarrow> v | None \<Rightarrow> JUndefined)"
| "getProp (JArr xs ps) k = (case map_of ps k of Some v \<Rightarrow> v | None \<Rightarrow> JUndefined)"
| "getProp v k = JUndefined"

fun isArray :: "jsval \<Rightarrow> bool" where
  "isArray (JArr xs ps) = True"
| "isArray v = False"

fun elems :: "jsval \<Rightarrow> jsval list" where
  "elems (JArr xs ps) = xs"
| "elems v = []"

subsection \<open>Numbers and strings\<close>

fun digitsOf :: "nat \<Rightarrow> jsstring" where
  "digitsOf n = (if n < 10 then [48 + n] else digitsOf (n div 10) @ [48 + n mod 10])"

declare digitsOf.simps [simp del]

definition showInt :: "int \<Rightarrow> jsstring" where
  "showInt i = (if i < 0 then 45 # digitsOf (nat (- i)) else digitsOf (nat i))"

fun joinWith :: "jsstring \<Rightarrow> jsstring list \<Rightarrow> jsstring" where
  "joinWith sep [] = []"
| "joinWith sep [x] = x"
| "joinWith sep (x # y # ys) = x @ sep @ joinWith sep (y # ys)"

text \<open>\<open>String(v)\<close>; an array is its elements joined by commas, \<open>null\<close> and
  \<open>undefined\<close> elements as the empty string.\<close>

fun js_String :: "jsval \<Rightarrow> jsstring" where
  "js_String JUndefined = str ''undefined''"
| "js_String JNull = str ''null''"
| "js_String (JBool b) = (if b then str ''true'' else str ''false'')"
| "js_String (JNum n) = showInt n"
| "js_String (JStr s) = s"
| "js_String (JArr xs ps) =
     joinWith [44] (map (\<lambda>x. if x = JUndefined \<or> x = JNull then [] else js_String x) xs)"
| "js_String (JObj ps) = str ''[object Object]''"

text \<open>\<open>Number(v)\<close>, the conversion of a string being the engine's, taken as \<open>s2n\<close>.\<close>

fun js_Number :: "(jsstring \<Rightarrow> jsnumber) \<Rightarrow> jsval \<Rightarrow> jsnumber" where
  "js_Number s2n JUndefined = NotFinite"
| "js_Number s2n JNull = Finite 0"
| "js_Number s2n (JBool b) = Finite (if b then 1 else 0)"
| "js_Number s2n (JNum n) = Finite (of_int n)"
| "js_Number s2n (JStr s) = s2n s"
| "js_Number s2n v = s2n (js_String v)"

text \<open>White space and line terminators, as \<open>String.prototype.trim\<close> strips them.\<close>

definition isWhite :: "nat \<Rightarrow> bool" where
  "isWhite c = (c \<in> set [9, 10, 11, 12, 13, 32, 160, 5760, 8232, 8233, 8239, 8287, 12288, 65279]
                \<or> (8192 \<le> c \<and> c \<le> 8202))"

definition trim :: "jsstring \<Rightarrow> jsstring" where
  "trim s = rev (dropWhile isWhite (rev (dropWhile isWhite s)))"

text \<open>\<open>s.padStart(2, "0")\<close>.\<close>

definition pad2 :: "jsstring \<Rightarrow> jsstring" where
  "pad2 s = replicate (2 - length s) 48 @ s"

section \<open>Request parameters\<close>

text \<open>\<open>toLowerCase\<close> is the engine's Unicode mapping, taken as the parameter \<open>lc\<close>.\<close>

definition normalizeKind :: "(jsstring \<Rightarrow> jsstring) \<Rightarrow> jsval \<Rightarrow> jsstring" where
  "normalizeKind lc v =
     (let k = trim (lc (js_String (js_or v (JStr (str ''bid'')))))
      in if k = str ''bid'' \<or> k = str ''award'' \<or> k = str ''contract'' then k
         else str ''bid'')"

text \<open>\<open>s.slice(a, b)\<close> for non-negative \<open>a\<close>, \<open>b\<close>.\<close>

definition sliceStr :: "nat \<Rightarrow> nat \<Rightarrow> jsstring \<Rightarrow> jsstring" where
  "sliceStr a b s = take (b - a) (drop a s)"

text \<open>The keyword of the handler: \<open>String(req.query.q ?? "").trim().slice(0, 60)\<close>.\<close>

definition keywordOf :: "jsval \<Rightarrow> jsstring" where
  "keywordOf v = sliceStr 0 60 (trim (js_String (js_coalesce v (JStr []))))"

text \<open>\<open>clampInt\<close> and \<open>toInt\<close>, on \<open>n = Number(v)\<close>.\<close>

definition clampInt :: "jsnumber \<Rightarrow> int \<Rightarrow> int \<Rightarrow> int \<Rightarrow> int" where
  "clampInt n def mn mx =
     (let x = (case n of Finite r \<Rightarrow> \<lfloor>r\<rfloor> | NotFinite \<Rightarrow> def)
      in min mx (max mn x))"

definition toInt :: "jsnumber \<Rightarrow> int \<Rightarrow> int" where
  "toInt n def = (case n of Finite r \<Rightarrow> \<lfloor>r\<rfloor> | NotFinite \<Rightarrow> def)"

section \<open>Page budget\<close>

definition decidePagesToFetch :: "int \<Rightarrow> int \<Rightarrow> int \<Rightarrow> int \<Rightarrow> int" where
  "decidePagesToFetch totalCount numOfRows pageNo maxPages =
     (if totalCount = 0 \<or> totalCount \<le> 0 then maxPages
      else let totalPages = \<lceil>real_of_int totalCount / real_of_int numOfRows\<rceil>;
               remain = totalPages - (pageNo - 1)
           in max 1 (min maxPages remain))"

section \<open>Exceptions\<close>

text \<open>
  What the source throws (\<open>Error\<close> with its message) and what the engine throws under it:
  a \<open>TypeError\<close> for an assignment to a property of a primitive (the file is a module, so
  strict), a \<open>URIError\<close> for \<open>encodeURIComponent\<close> on a lone surrogate.
\<close>

datatype exn = Error jsstring | TypeError | URIError

definition bindE :: "'e + 'a \<Rightarrow> ('a \<Rightarrow> 'e + 'b) \<Rightarrow> 'e + 'b" where
  "bindE m f = (case m of Inl e \<Rightarrow> Inl e | Inr a \<Rightarrow> f a)"

fun mapE :: "('a \<Rightarrow> 'e + 'b) \<Rightarrow> 'a list \<Rightarrow> 'e + 'b list" where
  "mapE f [] = Inr []"
| "mapE f (x # xs) = bindE (f x) (\<lambda>y. bindE (mapE f xs) (\<lambda>ys. Inr (y # ys)))"

section \<open>Envelopes\<close>

definition pickItems :: "jsval \<Rightarrow> jsval list" where
  "pickItems raw =
     (let body = getProp (getProp raw ''response'') ''body'';
          list = js_coalesce (js_coalesce (js_coalesce (js_coalesce
                   (getProp (getProp body ''items'') ''item'')
                   (getProp body ''items''))
                   (getProp (getProp raw ''items'') ''item''))
                   (getProp raw ''items''))
                   (JArr [] []);
          arr = (if isArray list then elems list else filter truthy [list])
      in case arr of
           [a] \<Rightarrow> if truthy a \<and> isArray (getProp a ''item'') then elems (getProp a ''item'')
                  else arr
         | _ \<Rightarrow> arr)"

text \<open>
  \<open>JSON.parse(JSON.stringify(obj))\<close>: named properties of an array are dropped, an
  \<open>undefined\<close> element becomes \<open>null\<close>, an \<open>undefined\<close> property is omitted; on
  \<open>undefined\<close> itself the parse throws and \<open>obj\<close> is returned.
\<close>

fun deepClone :: "jsval \<Rightarrow> jsval" where
  "deepClone (JArr xs ps) = JArr (map (\<lambda>x. if x = JUndefined then JNull else deepClone x) xs) []"
| "deepClone (JObj ps) =
     JObj (map (\<lambda>kv. (fst kv, deepClone (snd kv))) (filter (\<lambda>kv. snd kv \<noteq> JUndefined) ps))"
| "deepClone v = v"

text \<open>\<open>o.k = v\<close>: on a primitive it throws.\<close>

fun setProp :: "jsval \<Rightarrow> string \<Rightarrow> jsval \<Rightarrow> exn + jsval" where
  "setProp (JObj ps) k v = Inr (JObj (AList.update k v ps))"
| "setProp (JArr xs ps) k v = Inr (JArr xs (AList.update k v ps))"
| "setProp w k v = Inl TypeError"

text \<open>
  \<open>mergeResponses\<close> fills in \<open>response\<close>, \<open>body\<close> and \<open>items\<close> where they are falsy and
  assigns \<open>items.item\<close>; the model rebuilds the path bottom-up. A level that is already
  truthy is an object or an array, where the rebuilding assignment cannot throw, so the model
  throws exactly where the source assigns to a primitive.
\<close>

definition mergeResponses :: "jsval list \<Rightarrow> exn + jsval" where
  "mergeResponses jsonList =
     (let base = js_or (case jsonList of [] \<Rightarrow> JUndefined | j # js \<Rightarrow> j) (JObj []);
          itemsMerged = concat (map pickItems jsonList);
          merged = deepClone base;
          response = js_or (getProp merged ''response'') (JObj []);
          body = js_or (getProp response ''body'') (JObj []);
          items = js_or (getProp body ''items'') (JObj [])
      in bindE (setProp items ''item'' (JArr itemsMerged [])) (\<lambda>items'.
         bindE (setProp body ''items'' items') (\<lambda>body'.
         bindE (setProp response ''body'' body') (\<lambda>response'.
         setProp merged ''response'' response'))))"

section \<open>Links and amounts\<close>

definition isDigit :: "nat \<Rightarrow> bool" where
  "isDigit c = (48 \<le> c \<and> c \<le> 57)"

definition isAlnum :: "nat \<Rightarrow> bool" where
  "isAlnum c = (isDigit c \<or> (65 \<le> c \<and> c \<le> 90) \<or> (97 \<le> c \<and> c \<le> 122))"

definition hexDigit :: "nat \<Rightarrow> nat" where
  "hexDigit d = (if d < 10 then 48 + d else 55 + d)"

definition utf8 :: "nat \<Rightarrow> nat list" where
  "utf8 cp =
     (if cp < 128 then [cp]
      else if cp < 2048 then [192 + cp div 64, 128 + cp mod 64]
      else if cp < 65536 then [224 + cp div 4096, 128 + (cp div 64) mod 64, 128 + cp mod 64]
      else [240 + cp div 262144, 128 + (cp div 4096) mod 64, 128 + (cp div 64) mod 64,
            128 + cp mod 64])"

definition pct :: "nat list \<Rightarrow> jsstring" where
  "pct bytes = concat (map (\<lambda>b. [37, hexDigit (b div 16), hexDigit (b mod 16)]) bytes)"

text \<open>The characters \<open>encodeURIComponent\<close> leaves alone: letters, digits and \<open>-_.!~*'()\<close>.\<close>

definition uriUnreserved :: "nat \<Rightarrow> bool" where
  "uriUnreserved c = (isAlnum c \<or> c \<in> set [45, 95, 46, 33, 126, 42, 39, 40, 41])"

fun encodeURIComponent :: "jsstring \<Rightarrow> exn + jsstring" where
  "encodeURIComponent [] = Inr []"
| "encodeURIComponent (c # cs) =
     (if uriUnreserved c then bindE (encodeURIComponent cs) (\<lambda>r. Inr (c # r))
      else if 56320 \<le> c \<and> c \<le> 57343 then Inl URIError
      else if 55296 \<le> c \<and> c \<le> 56319 then
        (case cs of
           [] \<Rightarrow> Inl URIError
         | d # ds \<Rightarrow>
             if 56320 \<le> d \<and> d \<le> 57343
             then bindE (encodeURIComponent ds)
                    (\<lambda>r. Inr (pct (utf8 (65536 + (c - 55296) * 1024 + (d - 56320))) @ r))
             else Inl URIError)
      else bindE (encodeURIComponent cs) (\<lambda>r. Inr (pct (utf8 c) @ r)))"

text \<open>
  \<open>Number(s)\<close> for a string of digits and decimal points, which is all the replace in
  \<open>prettifyAmount\<close> leaves: the empty string is 0, more than one point or a point with no
  digit is NaN. The value is the exact decimal (the rounding and the overflow of doubles are
  not modelled).
\<close>

definition decimalValue :: "jsstring \<Rightarrow> nat" where
  "decimalValue ds = foldl (\<lambda>acc c. 10 * acc + (c - 48)) 0 ds"

definition numberOfDigitsDots :: "jsstring \<Rightarrow> jsnumber" where
  "numberOfDigitsDots s =
     (let ip = takeWhile isDigit s; rest = dropWhile isDigit s
      in case rest of
           [] \<Rightarrow> Finite (real (decimalValue ip))
         | dot # fp \<Rightarrow>
             if list_all isDigit fp \<and> (ip \<noteq> [] \<or> fp \<noteq> [])
             then Finite (real (decimalValue ip) + real (decimalValue fp) / 10 ^ length fp)
             else NotFinite)"

text \<open>\<open>n.toLocaleString("en-US")\<close> for a non-negative integer.\<close>

fun group3 :: "jsstring \<Rightarrow> jsstring" where
  "group3 (a # b # c # d # ds) = a # b # c # 44 # group3 (d # ds)"
| "group3 ds = ds"

definition toLocaleString :: "nat \<Rightarrow> jsstring" where
  "toLocaleString n = rev (group3 (rev (digitsOf n)))"

definition prettifyAmount :: "jsval \<Rightarrow> jsstring" where
  "prettifyAmount v =
     (let s = trim (js_String (js_coalesce v (JStr [])))
      in if s = [] then []
         else case numberOfDigitsDots (filter (\<lambda>c. isDigit c \<or> c = 46) s) of
                NotFinite \<Rightarrow> []
              | Finite num \<Rightarrow>
                  if num = 0 then []
                  else let intLike = \<lfloor>num + 1 / 2\<rfloor> in toLocaleString (nat intLike))"

section \<open>Records\<close>

record canon =
  title :: jsval
  date :: jsval
  time :: jsval
  org :: jsval
  amount :: jsval
  status :: jsval
  winner :: jsval
  period :: jsval
  idA :: jsval
  idB :: jsval

record item =
  itemTitle :: jsval
  itemDate :: jsval
  itemTime :: jsval
  itemOrg :: jsval
  itemAmount :: jsstring
  itemStatus :: jsval
  itemWinner :: jsval
  itemPeriod :: jsval
  url :: jsstring
  fallbackUrl :: jsstring

record extracted =
  items :: "item list"
  totalItemsParsed :: nat
  matchedAfterFilter :: nat

text \<open>The callback of \<open>arr.map\<close> in \<open>extractItems\<close>; a field the literal lacks reads
  \<open>undefined\<close>.\<close>

definition mapItem :: "jsstring \<Rightarrow> jsval \<Rightarrow> canon" where
  "mapItem kind x =
     (if kind = str ''bid'' then
        \<lparr> title = js_or (js_or (js_or (getProp x ''bidNtceNm'') (getProp x ''bidNtceName''))
                    (getProp x ''bidNm'')) (JStr (str ''Untitled'')),
          date = js_or (js_or (getProp x ''bidNtceDate'') (getProp x ''bidNtceDt'')) (JStr []),
          time = js_or (js_or (getProp x ''bidNtceBgn'') (getProp x ''bidNtceTime'')) (JStr []),
          org = js_or (js_or (js_or (getProp x ''ntceInsttNm'') (getProp x ''dmndInsttNm''))
                  (getProp x ''dminsttNm'')) (JStr []),
          amount = js_coalesce (js_coalesce (js_coalesce (getProp x ''asignBdgtAmt'')
                     (getProp x ''presmptPrce'')) (getProp x ''presmPrce'')) (JStr []),
          status = js_or (js_or (getProp x ''bidNtceSttusNm'') (getProp x ''bidNtceSttusName''))
                     (JStr []),
          winner = JUndefined,
          period = JUndefined,
          idA = js_or (js_or (getProp x ''bidNtceNo'') (getProp x ''bidNtceNum'')) (JStr []),
          idB = js_or (js_or (getProp x ''bidNtceOrd'') (getProp x ''bidNtceSeq'')) (JStr []) \<rparr>
      else if kind = str ''award'' then
        \<lparr> title = js_or (js_or (js_or (getProp x ''bidNtceNm'') (getProp x ''bidNm''))
                    (getProp x ''bidNtceName'')) (JStr (str ''Untitled'')),
          date = js_or (js_or (getProp x ''opengDate'') (getProp x ''opengDt'')) (JStr []),
          time = js_or (getProp x ''opengTm'') (JStr []),
          org = js_or (js_or (js_or (getProp x ''ntceInsttNm'') (getProp x ''dmndInsttNm''))
                  (getProp x ''dminsttNm'')) (JStr []),
          amount = js_coalesce (js_coalesce (js_coalesce (getProp x ''scsbidAmt'')
                     (getProp x ''scsbidPrice'')) (getProp x ''cntrctAmt'')) (JStr []),
          status = js_or (js_or (getProp x ''bidNtceSttusNm'') (getProp x ''bidNtceSttusName''))
                     (JStr []),
          winner = js_or (js_or (getProp x ''prtcptnEntrpsNm'') (getProp x ''sucsfnEntrpsNm''))
                     (JStr []),
          period = JUndefined,
          idA = JUndefined,
          idB = JUndefined \<rparr>
      else
        \<lparr> title = js_or (js_or (js_or (getProp x ''cntrctNm'') (getProp x ''cntrctName''))
                    (getProp x ''bidNtceNm'')) (JStr (str ''Untitled'')),
          date = js_or (js_or (getProp x ''cntrctCnclsDate'') (getProp x ''cntrctDate'')) (JStr []),
          time = JUndefined,
          org = js_or (js_or (js_or (js_or (getProp x ''dmndInsttNm'') (getProp x ''cntrctInsttNm''))
                  (getProp x ''ntceInsttNm'')) (getProp x ''dminsttNm'')) (JStr []),
          amount = js_coalesce (js_coalesce (getProp x ''cntrctAmt'') (getProp x ''contAmt''))
                     (JStr []),
          status = js_or (getProp x ''cntrctCnclsSttusNm'') (JStr []),
          winner = JUndefined,
          period = js_or (js_or (getProp x ''cntrctPrd'') (getProp x ''cntrctPeriod'')) (JStr []),
          idA = JUndefined,
          idB = JUndefined \<rparr>)"

text \<open>The fields the title chain of \<open>mapItem\<close> reads, in its order.\<close>

definition titleFields :: "jsstring \<Rightarrow> string list" where
  "titleFields kind =
     (if kind = str ''bid'' then [''bidNtceNm'', ''bidNtceName'', ''bidNm'']
      else if kind = str ''award'' then [''bidNtceNm'', ''bidNm'', ''bidNtceName'']
      else [''cntrctNm'', ''cntrctName'', ''bidNtceNm''])"

section \<open>Keyword filter\<close>

text \<open>\<open>str.includes(p)\<close>.\<close>

fun js_includes :: "jsstring \<Rightarrow> jsstring \<Rightarrow> bool" where
  "js_includes [] p = (p = [])"
| "js_includes (c # cs) p = (prefix p (c # cs) \<or> js_includes cs p)"

definition hasQ :: "(jsstring \<Rightarrow> jsstring) \<Rightarrow> bool \<Rightarrow> jsstring \<Rightarrow> jsval \<Rightarrow> bool" where
  "hasQ lc filterEnabled qlc s =
     (if \<not> filterEnabled then True
      else if qlc = [] then True
      else js_includes (lc (js_String (js_or s (JStr [])))) qlc)"

text \<open>The callback of \<open>mapped.filter\<close> in \<open>extractItems\<close>.\<close>

definition passes :: "(jsstring \<Rightarrow> jsstring) \<Rightarrow> bool \<Rightarrow> jsstring \<Rightarrow> canon \<Rightarrow> bool" where
  "passes lc filterEnabled qlc it =
     (hasQ lc filterEnabled qlc (title it) \<or> hasQ lc filterEnabled qlc (org it))"

section \<open>Extraction\<close>

definition mkSearchUrl :: "jsval \<Rightarrow> exn + jsstring" where
  "mkSearchUrl keyword =
     bindE (encodeURIComponent (js_String (js_or keyword (JStr []))))
       (\<lambda>e. Inr (str ''https://www.g2b.go.kr:8101/ep/tbid/tbidList.do?bidNm='' @ e))"

text \<open>The callback of the second \<open>map\<close> in \<open>extractItems\<close>.\<close>

definition withUrl :: "jsstring \<Rightarrow> canon \<Rightarrow> exn + item" where
  "withUrl kind it =
     (let amountStr = prettifyAmount (amount it)
      in bindE
           (if kind = str ''bid'' \<and> truthy (idA it) then
              (let bidno = js_String (idA it);
                   bidseq = pad2 (js_String (js_or (idB it) (JStr (str ''00''))))
               in bindE (encodeURIComponent bidno) (\<lambda>e1.
                  bindE (encodeURIComponent bidseq) (\<lambda>e2.
                  Inr (str ''https://www.g2b.go.kr:8081/ep/invitation/publish/bidInfoDtl.do''
                       @ str ''?bidno='' @ e1 @ str ''&bidseq='' @ e2
                       @ str ''&releaseYn=Y&taskClCd=5''))))
            else mkSearchUrl (title it))
           (\<lambda>u. bindE (mkSearchUrl (title it)) (\<lambda>f.
              Inr \<lparr> itemTitle = title it, itemDate = date it, itemTime = time it,
                    itemOrg = org it, itemAmount = amountStr, itemStatus = status it,
                    itemWinner = winner it, itemPeriod = period it,
                    url = u, fallbackUrl = f \<rparr>)))"

text \<open>\<open>xs.slice(0, n)\<close>: a negative \<open>n\<close> counts from the end.\<close>

definition slice0 :: "'a list \<Rightarrow> int \<Rightarrow> 'a list" where
  "slice0 xs n = (if n < 0 then take (nat (int (length xs) + n)) xs else take (nat n) xs)"

text \<open>\<open>opts\<close>: whether \<open>filterEnabled\<close> is not \<open>false\<close>, and \<open>Number(opts.limit)\<close>.\<close>

record opts =
  filterEnabled :: bool
  limit :: jsnumber

definition extractItems ::
    "(jsstring \<Rightarrow> jsstring) \<Rightarrow> jsval \<Rightarrow> jsstring \<Rightarrow> jsstring \<Rightarrow> opts \<Rightarrow> exn + extracted" where
  "extractItems lc raw kind q os =
     (let lim = toInt (limit os) 50;
          arr = pickItems raw;
          qlc = trim (lc q);
          mapped = map (mapItem kind) arr;
          filtered = filter (passes lc (filterEnabled os) qlc) mapped
      in bindE (mapE (withUrl kind) (slice0 filtered lim))
           (\<lambda>w. Inr \<lparr> items = w, totalItemsParsed = length arr,
                       matchedAfterFilter = length filtered \<rparr>))"

section \<open>Dates\<close>

text \<open>
  Time values are milliseconds since the epoch; the UTC calendar fields are those of
  ECMAScript (\<open>Day\<close>, \<open>DayFromYear\<close>, \<open>YearFromTime\<close>, \<open>MonthFromTime\<close>, \<open>DateFromTime\<close>).
\<close>

definition msPerDay :: int where
  "msPerDay = 24 * 60 * 60 * 1000"

definition Day :: "int \<Rightarrow> int" where
  "Day t = t div msPerDay"

definition daysInYear :: "int \<Rightarrow> int" where
  "daysInYear y =
     (if y mod 4 \<noteq> 0 then 365 else if y mod 100 \<noteq> 0 then 366
      else if y mod 400 \<noteq> 0 then 365 else 366)"

definition dayFromYear :: "int \<Rightarrow> int" where
  "dayFromYear y =
     365 * (y - 1970) + (y - 1969) div 4 - (y - 1901) div 100 + (y - 1601) div 400"

text \<open>
  The year of day \<open>d\<close>, searched upwards from year \<open>y\<close>, which starts on day \<open>start\<close>.
\<close>

function yearFrom :: "int \<Rightarrow> int \<Rightarrow> int \<Rightarrow> int" where
  "yearFrom y start d =
     (if start + daysInYear y \<le> d then yearFrom (y + 1) (start + daysInYear y) d else y)"
  by pat_completeness auto
termination
  by (relation "measure (\<lambda>(y, start, d). nat (d - start))") (auto simp: daysInYear_def)

declare yearFrom.simps [simp del]

definition yearFromDay :: "int \<Rightarrow> int" where
  "yearFromDay d =
     (let y0 = 1970 + (if 0 \<le> d then d div 366 else d div 365)
      in yearFrom y0 (dayFromYear y0) d)"

definition monthStart :: "int \<Rightarrow> nat \<Rightarrow> int" where
  "monthStart leap m =
     [0, 31, 59 + leap, 90 + leap, 120 + leap, 151 + leap, 181 + leap, 212 + leap,
      243 + leap, 273 + leap, 304 + leap, 334 + leap, 365 + leap] ! m"

definition inLeapYear :: "int \<Rightarrow> int" where
  "inLeapYear y = (if daysInYear y = 366 then 1 else 0)"

definition monthFromDay :: "int \<Rightarrow> int \<Rightarrow> nat" where
  "monthFromDay leap dw =
     (if dw < 31 then 0 else if dw < 59 + leap then 1 else if dw < 90 + leap then 2
      else if dw < 120 + leap then 3 else if dw < 151 + leap then 4
      else if dw < 181 + leap then 5 else if dw < 212 + leap then 6
      else if dw < 243 + leap then 7 else if dw < 273 + leap then 8
      else if dw < 304 + leap then 9 else if dw < 334 + leap then 10 else 11)"

definition utcYmd :: "int \<Rightarrow> int \<times> nat \<times> int" where
  "utcYmd t =
     (let y = yearFromDay (Day t);
          dw = Day t - dayFromYear y;
          m = monthFromDay (inLeapYear y) dw
      in (y, m, dw - monthStart (inLeapYear y) m + 1))"

definition getNowKstDate :: "int \<Rightarrow> int" where
  "getNowKstDate now = now + 9 * 60 * 60 * 1000"

definition daysFromCivil :: "int \<times> nat \<times> int \<Rightarrow> int" where
  "daysFromCivil c = (case c of (y, m, day) \<Rightarrow>
                        dayFromYear y + monthStart (inLeapYear y) m + day - 1)"

definition ymd_le :: "int \<times> nat \<times> int \<Rightarrow> int \<times> nat \<times> int \<Rightarrow> bool" where
  "ymd_le a b = (case a of (y1, m1, d1) \<Rightarrow> case b of (y2, m2, d2) \<Rightarrow>
                   y1 < y2 \<or> (y1 = y2 \<and> (m1 < m2 \<or> (m1 = m2 \<and> d1 \<le> d2))))"


definition fmtYmd :: "int \<Rightarrow> jsstring" where
  "fmtYmd t = (case utcYmd t of (y, m, day) \<Rightarrow>
                 showInt y @ pad2 (showInt (int m + 1)) @ pad2 (showInt day))"

definition daysBack :: "jsstring \<Rightarrow> int" where
  "daysBack kind = (if kind = str ''award'' then 6 else 29)"


section \<open>Upstream requests\<close>

text \<open>
  What the handler reads from outside: the environment variable, the clock, the network
  (\<open>fetch\<close> either responds with \<open>ok\<close>, \<open>status\<close> and the body text, or rejects with a
  message, as it does on a network failure and on the abort of the timeout), and the
  engine's \<open>JSON.parse\<close>, string-to-number conversion and \<open>toLowerCase\<close>.
\<close>

datatype net = Responded bool int jsstring | Rejected jsstring

record world =
  serviceKeyEnv :: jsval
  dateNow :: int
  fetch :: "jsstring \<Rightarrow> net"
  jsonParse :: "jsstring \<Rightarrow> jsval option"
  stringToNumber :: "jsstring \<Rightarrow> jsnumber"
  toLowerCase :: "jsstring \<Rightarrow> jsstring"

record request =
  httpMethod :: jsstring
  query :: "string \<Rightarrow> jsval"

definition normalizeServiceKey :: "jsval \<Rightarrow> exn + jsstring" where
  "normalizeServiceKey key =
     (let s = trim (js_String (js_or key (JStr [])))
      in if s = [] then Inr s
         else if 37 \<in> set s then Inr s else encodeURIComponent s)"

text \<open>
  \<open>URLSearchParams\<close>: the pairs in order; \<open>set\<close> replaces the first pair of the name and
  drops the others, or appends; \<open>toString\<close> is the form-urlencoded serialisation (a lone
  surrogate is replaced by U+FFFD, a blank becomes \<open>+\<close>).
\<close>

fun paramsSet :: "(jsstring \<times> jsstring) list \<Rightarrow> jsstring \<Rightarrow> jsstring
                   \<Rightarrow> (jsstring \<times> jsstring) list" where
  "paramsSet [] k v = [(k, v)]"
| "paramsSet (p # ps) k v =
     (if fst p = k then (k, v) # filter (\<lambda>p'. fst p' \<noteq> k) ps else p # paramsSet ps k v)"

definition formBytes :: "nat list \<Rightarrow> jsstring" where
  "formBytes bs =
     concat (map (\<lambda>b. if b = 32 then [43]
                       else if isAlnum b \<or> b \<in> set [42, 45, 46, 95] then [b]
                       else pct [b]) bs)"

fun formEncode :: "jsstring \<Rightarrow> jsstring" where
  "formEncode [] = []"
| "formEncode (c # cs) =
     (if 55296 \<le> c \<and> c \<le> 56319 then
        (case cs of
           [] \<Rightarrow> formBytes (utf8 65533)
         | d # ds \<Rightarrow>
             if 56320 \<le> d \<and> d \<le> 57343
             then formBytes (utf8 (65536 + (c - 55296) * 1024 + (d - 56320))) @ formEncode ds
             else formBytes (utf8 65533) @ formEncode cs)
      else if 56320 \<le> c \<and> c \<le> 57343 then formBytes (utf8 65533) @ formEncode cs
      else formBytes (utf8 c) @ formEncode cs)"

definition paramsToString :: "(jsstring \<times> jsstring) list \<Rightarrow> jsstring" where
  "paramsToString ps = joinWith [38] (map (\<lambda>p. formEncode (fst p) @ [61] @ formEncode (snd p)) ps)"

definition buildUrl :: "jsstring \<Rightarrow> (jsstring \<times> jsstring) list \<Rightarrow> int \<Rightarrow> jsstring" where
  "buildUrl endpoint baseParams pageNo =
     endpoint @ [63] @ paramsToString (paramsSet baseParams (str ''pageNo'') (showInt pageNo))"

text \<open>\<open>fetchTextWithTimeout\<close> gives \<open>(ok, status, text)\<close>.\<close>

definition fetchTextWithTimeout :: "world \<Rightarrow> jsstring \<Rightarrow> bool \<times> int \<times> jsstring" where
  "fetchTextWithTimeout w u =
     (case fetch w u of
        Responded ok st tx \<Rightarrow> (ok, st, tx)
      | Rejected msg \<Rightarrow> (False, 599, str ''Fetch failed: '' @ msg))"

definition fetchJsonUpstream :: "world \<Rightarrow> jsstring \<Rightarrow> exn + jsstring \<times> jsval" where
  "fetchJsonUpstream w u =
     (case fetchTextWithTimeout w u of (ok, st, tx) \<Rightarrow>
        if \<not> ok then Inl (Error (str ''Upstream '' @ showInt st @ str '': '' @ sliceStr 0 200 tx))
        else case jsonParse w tx of
               None \<Rightarrow> Inl (Error (str ''Upstream non-JSON. First bytes: '' @ sliceStr 0 200 tx))
             | Some j \<Rightarrow> Inr (u, j))"

section \<open>The handler\<close>

text \<open>
  The JSON payloads. The three fields \<open>extractItems\<close> returns are kept together
  (\<open>returned\<close> is the length of its items); \<open>fetchedAt\<close>, the clock at response time, is
  left out. The message of the catch-all payload is that of the exception.
\<close>

record payload =
  kindOut :: jsstring
  qOut :: jsstring
  totalCountFromApi :: int
  pagesFetched :: int
  numOfRowsOut :: int
  pageNoStart :: int
  extraction :: extracted
  filterOut :: bool
  kstRange :: jsstring
  sourceUrl :: jsstring

datatype body = NoBody | ErrorBody jsstring | ProxyFailed exn | OkBody payload

record response =
  code :: int
  body :: body

definition endpointByKind :: "jsstring \<Rightarrow> jsstring option" where
  "endpointByKind kind =
     (let base = str ''https://apis.data.go.kr/1230000/ao/PubDataOpnStdService''
      in if kind = str ''bid'' then Some (base @ str ''/getDataSetOpnStdBidPblancInfo'')
         else if kind = str ''award'' then Some (base @ str ''/getDataSetOpnStdScsbidInfo'')
         else if kind = str ''contract'' then Some (base @ str ''/getDataSetOpnStdCntrctInfo'')
         else None)"

text \<open>The base parameters of the upstream query, by kind.\<close>

definition baseParamsOf ::
    "jsstring \<Rightarrow> jsstring \<Rightarrow> int \<Rightarrow> jsstring \<Rightarrow> jsstring \<Rightarrow> jsstring
       \<Rightarrow> (jsstring \<times> jsstring) list" where
  "baseParamsOf kind serviceKey numOfRows fromYmd toYmd bsnsDivCd =
     (let p0 = [(str ''serviceKey'', serviceKey), (str ''type'', str ''json''),
                (str ''numOfRows'', showInt numOfRows)];
          p1 = (if kind = str ''bid''
                then paramsSet (paramsSet p0 (str ''bidNtceBgnDt'') (fromYmd @ str ''0000''))
                       (str ''bidNtceEndDt'') (toYmd @ str ''2359'')
                else p0);
          p2 = (if kind = str ''award''
                then paramsSet (paramsSet (paramsSet p1
                       (str ''opengBgnDt'') (fromYmd @ str ''0000''))
                       (str ''opengEndDt'') (toYmd @ str ''2359''))
                       (str ''bsnsDivCd'') bsnsDivCd
                else p1)
      in if kind = str ''contract''
         then paramsSet (paramsSet p2 (str ''cntrctCnclsBgnDate'') fromYmd)
                (str ''cntrctCnclsEndDate'') toYmd
         else p2)"

text \<open>
  The first page, the total count it reports, the number of pages decided on, and the
  further pages in order: the first failure ends the loop. The result is the total count,
  the number of pages and the fetched results.
\<close>

definition fetchPages ::
    "world \<Rightarrow> jsstring \<Rightarrow> (jsstring \<times> jsstring) list \<Rightarrow> int \<Rightarrow> int \<Rightarrow> int
       \<Rightarrow> exn + int \<times> int \<times> (jsstring \<times> jsval) list" where
  "fetchPages w endpoint baseParams numOfRows pageNo maxPages =
     bindE (fetchJsonUpstream w (buildUrl endpoint baseParams pageNo)) (\<lambda>first.
       let totalCount = toInt (js_Number (stringToNumber w)
             (getProp (getProp (getProp (snd first) ''response'') ''body'') ''totalCount'')) 0;
           pagesToFetch = decidePagesToFetch totalCount numOfRows pageNo maxPages
       in bindE (mapE (\<lambda>i. fetchJsonUpstream w
                               (buildUrl endpoint baseParams (pageNo + (i - 1))))
                   [2..pagesToFetch]) (\<lambda>more.
          Inr (totalCount, pagesToFetch, first # more)))"

text \<open>The \<open>try\<close> block from the date window on, for the service key and the endpoint.\<close>

definition serve :: "world \<Rightarrow> request \<Rightarrow> jsstring \<Rightarrow> jsstring \<Rightarrow> jsstring \<Rightarrow> exn + response" where
  "serve w req kind serviceKey endpoint =
     (let q = keywordOf (query req ''q'');
          filterOn = (js_String (js_coalesce (query req ''filter'') (JStr (str ''1'')))
                        \<noteq> str ''0'');
          nowKst = getNowKstDate (dateNow w);
          fromKst = nowKst - daysBack kind * (24 * 60 * 60 * 1000);
          fromYmd = fmtYmd fromKst;
          toYmd = fmtYmd nowKst;
          numOfRows = clampInt (js_Number (stringToNumber w) (query req ''numOfRows''))
                        100 1 1000;
          pageNo = clampInt (js_Number (stringToNumber w) (query req ''pageNo'')) 1 1 9999;
          maxPages = clampInt (js_Number (stringToNumber w) (query req ''maxPages'')) 3 1 10;
          bsnsDivCd = js_String (js_or (query req ''bsnsDivCd'') (JStr (str ''5'')));
          baseParams = baseParamsOf kind serviceKey numOfRows fromYmd toYmd bsnsDivCd
      in bindE (fetchPages w endpoint baseParams numOfRows pageNo maxPages) (\<lambda>fetched.
         bindE (mergeResponses (map snd (snd (snd fetched)))) (\<lambda>mergedRaw.
         bindE (extractItems (toLowerCase w) mergedRaw kind q
                  \<lparr> filterEnabled = filterOn, limit = Finite 50 \<rparr>) (\<lambda>ex.
         Inr \<lparr> code = 200,
               body = OkBody \<lparr> kindOut = kind, qOut = q,
                 totalCountFromApi = fst fetched, pagesFetched = fst (snd fetched),
                 numOfRowsOut = numOfRows, pageNoStart = pageNo, extraction = ex,
                 filterOut = filterOn,
                 kstRange = sliceStr 0 4 fromYmd @ [45] @ sliceStr 4 6 fromYmd @ [45]
                   @ sliceStr 6 8 fromYmd @ str '' ~ '' @ sliceStr 0 4 toYmd @ [45]
                   @ sliceStr 4 6 toYmd @ [45] @ sliceStr 6 8 toYmd,
                 sourceUrl = buildUrl endpoint baseParams pageNo \<rparr> \<rparr>))))"

text \<open>The \<open>try\<close> block from the environment variable on, for the kind \<open>normalizeKind\<close> gave.\<close>

definition proceed :: "world \<Rightarrow> request \<Rightarrow> jsstring \<Rightarrow> exn + response" where
  "proceed w req kind =
     (let serviceKeyRaw = serviceKeyEnv w
      in if \<not> truthy serviceKeyRaw
         then Inr \<lparr> code = 500, body = ErrorBody (str ''Missing DATA_GO_KR_SERVICE_KEY'') \<rparr>
         else bindE (normalizeServiceKey serviceKeyRaw) (\<lambda>serviceKey.
           case endpointByKind kind of
             None \<Rightarrow> Inr \<lparr> code = 400,
                          body = ErrorBody (str ''Invalid kind. Use bid|award|contract'') \<rparr>
           | Some endpoint \<Rightarrow> serve w req kind serviceKey endpoint))"

definition handler :: "world \<Rightarrow> request \<Rightarrow> response" where
  "handler w req =
     (if httpMethod req = str ''OPTIONS'' then \<lparr> code = 204, body = NoBody \<rparr>
      else case proceed w req (normalizeKind (toLowerCase w) (query req ''kind'')) of
             Inr resp \<Rightarrow> resp
           | Inl e \<Rightarrow> \<lparr> code = 500, body = ProxyFailed e \<rparr>)"

section \<open>Sample inputs\<close>

text \<open>
  \<open>toLowerCase\<close> on strings whose cased letters are all ASCII, as those of the samples
  are (Hangul has no case).
\<close>

definition asciiLower :: "jsstring \<Rightarrow> jsstring" where
  "asciiLower s = map (\<lambda>c. if 65 \<le> c \<and> c \<le> 90 then c + 32 else c) s"

definition counts :: "extracted \<Rightarrow> nat \<times> nat \<times> nat" where
  "counts r = (totalItemsParsed r, matchedAfterFilter r, length (items r))"

definition titleAI :: jsstring where
  "titleAI = [65, 73, 32, 49884, 49828, 53596, 32, 44396, 52629]"

definition docThree :: jsval where
  "docThree =
     JObj [(''response'', JObj [(''body'', JObj [(''items'',
        JArr [JObj [(''bidNtceNm'', JStr [46020, 47196, 32, 51221, 48708]),
                    (''ntceInsttNm'', JStr (str ''Seoul''))],
              JObj [(''bidNtceNm'', JStr titleAI),
                    (''bidNtceNo'', JNum 20240101001), (''bidNtceOrd'', JNum 1),
                    (''asignBdgtAmt'', JStr (str ''1,234,000'' @ [50896]))],
              JObj [(''ntceInsttNm'', JStr (str ''Busan Port''))]] [])])])]"


definition docLong :: jsval where
  "docLong = JObj [(''items'', JArr [JObj [(''bidNtceNm'', JStr (str ''a''))]] [])]"

definition qLong :: jsval where
  "qLong = JStr (str ''a                                                           b'')"

definition itemNoTitle :: jsval where
  "itemNoTitle = JObj [(''ntceInsttNm'', JStr (str ''Busan Port''))]"

definition worldDown :: world where
  "worldDown =
     \<lparr> serviceKeyEnv = JStr (str ''key''), dateNow = 1709251200000,
       fetch = (\<lambda>u. Rejected (str ''The operation was aborted'')),
       jsonParse = (\<lambda>t. None), stringToNumber = (\<lambda>s. NotFinite),
       toLowerCase = asciiLower \<rparr>"

definition reqTender :: request where
  "reqTender =
     \<lparr> httpMethod = str ''GET'',
       query = (\<lambda>k. if k = ''kind'' then JStr (str ''Tender'') else JUndefined) \<rparr>"

definition reqPlain :: request where
  "reqPlain = \<lparr> httpMethod = str ''GET'', query = (\<lambda>k. JUndefined) \<rparr>"

definition pagesCex :: "jsval list" where
  "pagesCex =
     [JObj [(''items'', JObj [(''item'',
        JArr [JObj [(''item'', JArr [JObj [(''item'', JArr [JNum 1, JNum 2] [])]] [])]] [])])]]"

definition mergedCex :: jsval where
  "mergedCex =
     JObj [(''items'', JObj [(''item'',
              JArr [JObj [(''item'', JArr [JObj [(''item'', JArr [JNum 1, JNum 2] [])]] [])]] [])]),
           (''response'', JObj [(''body'', JObj [(''items'', JObj [(''item'',
              JArr [JObj [(''item'', JArr [JNum 1, JNum 2] [])]] [])])])])]"

definition pagesOk :: "jsval list" where
  "pagesOk =
     [JObj [(''response'', JObj [(''body'', JObj [(''items'',
              JObj [(''item'', JArr [JObj [(''bidNtceNm'', JStr (str ''A''))],
                                    JObj [(''bidNtceNm'', JStr (str ''B''))]] [])]),
              (''totalCount'', JNum 3)])])],
      JObj [(''response'', JObj [(''body'', JObj [(''items'',
              JArr [JObj [(''bidNtceNm'', JStr (str ''C''))]] [])])])]]"

definition mergedOk :: jsval where
  "mergedOk =
     JObj [(''response'', JObj [(''body'', JObj [(''items'',
              JObj [(''item'', JArr [JObj [(''bidNtceNm'', JStr (str ''A''))],
                                    JObj [(''bidNtceNm'', JStr (str ''B''))],
                                    JObj [(''bidNtceNm'', JStr (str ''C''))]] [])]),
              (''totalCount'', JNum 3)])])]"


section \<open>Theorems\<close>

subsection \<open>Page budget\<close>

lemma clampInt_range: "mn \<le> mx \<Longrightarrow> mn \<le> clampInt n d mn mx \<and> clampInt n d mn mx \<le> mx"
  by (simp add: clampInt_def Let_def)

lemma decidePagesToFetch_examples:
  "decidePagesToFetch 250 100 1 3 = 3"
  "decidePagesToFetch 50 100 1 3 = 1"
  "decidePagesToFetch 0 100 1 3 = 3"
  by (simp_all add: decidePagesToFetch_def Let_def)

text \<open>
  C1. The handler passes \<open>decidePagesToFetch\<close> the total-count hint \<open>toInt(Number(hint), 0)\<close>
  and the clamped \<open>numOfRows\<close>, \<open>pageNo\<close> and \<open>maxPages\<close>. For every hint \<open>tc\<close> and
  every raw paging input \<open>r\<close>, \<open>p\<close>, \<open>m\<close>: when the hint is positive, the number of pages
  is \<open>max(1, min(maxPages, ceil(totalCount / rowsPerPage) - (startPage - 1)))\<close>, otherwise
  (hint zero, negative, or unknown and so defaulted to 0) it is \<open>maxPages\<close>. With
  \<open>rowsPerPage = 100\<close>, \<open>startPage = 1\<close>, \<open>maxPages = 3\<close> the hints 250, 50 and 0 give
  3, 1 and 3 pages.
\<close>

theorem C1_pagesToFetch:
  fixes tc r p m :: jsnumber
  defines "totalCount \<equiv> toInt tc 0"
    and "rowsPerPage \<equiv> clampInt r 100 1 1000"
    and "startPage \<equiv> clampInt p 1 1 9999"
    and "maxPages \<equiv> clampInt m 3 1 10"
  shows "decidePagesToFetch totalCount rowsPerPage startPage maxPages =
           (if 0 < totalCount
            then max 1 (min maxPages
                   (\<lceil>real_of_int totalCount / real_of_int rowsPerPage\<rceil> - (startPage - 1)))
            else maxPages)
         \<and> decidePagesToFetch (toInt NotFinite 0) rowsPerPage startPage maxPages = maxPages
         \<and> decidePagesToFetch (toInt (Finite 250) 0) (clampInt (Finite 100) 100 1 1000)
               (clampInt (Finite 1) 1 1 9999) (clampInt (Finite 3) 3 1 10) = 3
         \<and> decidePagesToFetch (toInt (Finite 50) 0) (clampInt (Finite 100) 100 1 1000)
               (clampInt (Finite 1) 1 1 9999) (clampInt (Finite 3) 3 1 10) = 1
         \<and> decidePagesToFetch (toInt (Finite 0) 0) (clampInt (Finite 100) 100 1 1000)
               (clampInt (Finite 1) 1 1 9999) (clampInt (Finite 3) 3 1 10) = 3"
proof -
  have general: "decidePagesToFetch totalCount rowsPerPage startPage maxPages =
           (if 0 < totalCount
            then max 1 (min maxPages
                   (\<lceil>real_of_int totalCount / real_of_int rowsPerPage\<rceil> - (startPage - 1)))
            else maxPages)"
    by (simp add: decidePagesToFetch_def Let_def)
  have unknown: "decidePagesToFetch (toInt NotFinite 0) rowsPerPage startPage maxPages = maxPages"
    by (simp add: decidePagesToFetch_def toInt_def)
  have args: "toInt (Finite 250) 0 = 250" "toInt (Finite 50) 0 = 50" "toInt (Finite 0) 0 = 0"
    "clampInt (Finite 100) 100 1 1000 = 100" "clampInt (Finite 1) 1 1 9999 = 1"
    "clampInt (Finite 3) 3 1 10 = 3"
    by (simp_all add: toInt_def clampInt_def)
  show ?thesis
    using general unknown by (simp add: args decidePagesToFetch_examples)
qed


subsection \<open>Merging pages\<close>

lemma setProp_get: "setProp x k v = Inr y \<Longrightarrow> getProp y k = v"
  by (cases x) (auto simp: update_conv')

lemma bindE_Inr: "bindE m f = Inr y \<longleftrightarrow> (\<exists>a. m = Inr a \<and> f a = Inr y)"
  by (cases m) (auto simp: bindE_def)

lemma merged_item:
  assumes "mergeResponses pages = Inr merged"
  shows "getProp (getProp (getProp (getProp merged ''response'') ''body'') ''items'') ''item''
         = JArr (concat (map pickItems pages)) []"
  using assms unfolding mergeResponses_def Let_def bindE_Inr
  by (auto dest!: setProp_get)

lemma pickItems_item_array:
  assumes "getProp (getProp (getProp (getProp raw ''response'') ''body'') ''items'') ''item''
           = JArr xs ps"
  shows "pickItems raw =
          (case xs of
             [a] \<Rightarrow> if truthy a \<and> isArray (getProp a ''item'') then elems (getProp a ''item'')
                    else xs
           | _ \<Rightarrow> xs)"
  using assms by (auto simp add: pickItems_def Let_def js_coalesce_def nullish_def split: list.splits)

text \<open>
  C3 (as amended). Whenever \<open>mergeResponses\<close> returns (it throws when it must assign to a
  primitive), the merged document holds at \<open>response.body.items.item\<close> exactly the
  concatenation of the pages' extracted items, in page order. Extracting again gives that
  concatenation, except when it is a single truthy item with an array under \<open>item\<close>:
  \<open>pickItems\<close> then unwraps once more and returns the inner array.
\<close>

theorem C3_merge:
  assumes "mergeResponses pages = Inr merged"
  shows "getProp (getProp (getProp (getProp merged ''response'') ''body'') ''items'') ''item''
           = JArr (concat (map pickItems pages)) []
         \<and> ((\<forall>a. concat (map pickItems pages) = [a]
                  \<longrightarrow> \<not> (truthy a \<and> isArray (getProp a ''item'')))
              \<longrightarrow> pickItems merged = concat (map pickItems pages))
         \<and> (\<forall>a. concat (map pickItems pages) = [a] \<and> truthy a \<and> isArray (getProp a ''item'')
              \<longrightarrow> pickItems merged = elems (getProp a ''item''))"
proof -
  define c where "c = concat (map pickItems pages)"
  have item: "getProp (getProp (getProp (getProp merged ''response'') ''body'') ''items'') ''item''
           = JArr c []"
    unfolding c_def by (rule merged_item [OF assms])
  have pick: "pickItems merged =
          (case c of
             [a] \<Rightarrow> if truthy a \<and> isArray (getProp a ''item'') then elems (getProp a ''item'')
                    else c
           | _ \<Rightarrow> c)"
    by (rule pickItems_item_array [OF item])
  have same: "pickItems merged = c"
    if "\<forall>a. c = [a] \<longrightarrow> \<not> (truthy a \<and> isArray (getProp a ''item''))"
    using that pick by (auto split: list.splits)
  have inner: "pickItems merged = elems (getProp a ''item'')"
    if "c = [a] \<and> truthy a \<and> isArray (getProp a ''item'')" for a
    using that pick by simp
  show ?thesis using item same inner unfolding c_def by blast
qed

text \<open>Two pages, of two and one items, the second with its array directly under
  \<open>items\<close>.\<close>

theorem C3_merge_witness:
  "mergeResponses pagesOk = Inr mergedOk
   \<and> pickItems mergedOk = concat (map pickItems pagesOk)
   \<and> concat (map pickItems pagesOk) =
       [JObj [(''bidNtceNm'', JStr (str ''A''))], JObj [(''bidNtceNm'', JStr (str ''B''))],
        JObj [(''bidNtceNm'', JStr (str ''C''))]]"
proof -
  have m: "mergeResponses pagesOk = Inr mergedOk" by code_simp
  have c: "concat (map pickItems pagesOk) =
       [JObj [(''bidNtceNm'', JStr (str ''A''))], JObj [(''bidNtceNm'', JStr (str ''B''))],
        JObj [(''bidNtceNm'', JStr (str ''C''))]]" by code_simp
  show ?thesis using C3_merge [OF m] m c by simp
qed

text \<open>
  C3 as stated fails on a page whose items are wrapped three times: the page's items are the
  single object \<open>{item: [1, 2]}\<close>, and extracting from the merged document gives \<open>[1, 2]\<close>.
\<close>

theorem C3_counterexample:
  "mergeResponses pagesCex = Inr mergedCex
   \<and> concat (map pickItems pagesCex) = [JObj [(''item'', JArr [JNum 1, JNum 2] [])]]
   \<and> pickItems mergedCex = [JNum 1, JNum 2]
   \<and> pickItems mergedCex \<noteq> concat (map pickItems pagesCex)"
  by code_simp



subsection \<open>Extraction\<close>

lemma mapE_Inr: "mapE f xs = Inr ys \<Longrightarrow> list_all2 (\<lambda>x y. f x = Inr y) xs ys"
  by (induction xs arbitrary: ys) (auto simp: bindE_Inr)

lemma slice0_length: "length (slice0 xs n) \<le> length xs"
  by (auto simp: slice0_def)

lemma slice0_length_nonneg: "0 \<le> n \<Longrightarrow> length (slice0 xs n) \<le> nat n"
  by (simp add: slice0_def)

lemma slice0_set: "set (slice0 xs n) \<subseteq> set xs"
  by (auto simp: slice0_def dest: in_set_takeD)

lemma extractItems_Inr:
  assumes "extractItems lc raw kind q os = Inr res"
  shows "list_all2 (\<lambda>it r. withUrl kind it = Inr r)
           (slice0 (filter (passes lc (filterEnabled os) (trim (lc q)))
                      (map (mapItem kind) (pickItems raw))) (toInt (limit os) 50))
           (items res)"
    and "totalItemsParsed res = length (pickItems raw)"
    and "matchedAfterFilter res =
           length (filter (passes lc (filterEnabled os) (trim (lc q)))
                     (map (mapItem kind) (pickItems raw)))"
  using assms unfolding extractItems_def Let_def bindE_Inr
  by (auto dest: mapE_Inr)

lemma js_includes_sublist: "js_includes s p \<longleftrightarrow> sublist p s"
  by (induction s) (auto simp: sublist_Cons_right)

lemma hasQ_iff:
  "hasQ lc fe qlc s \<longleftrightarrow> (\<not> fe \<or> sublist qlc (lc (js_String (js_or s (JStr [])))))"
  by (auto simp: hasQ_def js_includes_sublist)

lemma passes_iff:
  "passes lc fe qlc it \<longleftrightarrow>
     (\<not> fe \<or> sublist qlc (lc (js_String (js_or (title it) (JStr []))))
            \<or> sublist qlc (lc (js_String (js_or (org it) (JStr [])))))"
  by (auto simp: passes_def hasQ_iff)

lemma truthy_title: "truthy (title (mapItem kind x))"
  by (simp add: mapItem_def js_or_def str_def)

lemma encodeURIComponent_unreserved:
  "list_all uriUnreserved s \<Longrightarrow> encodeURIComponent s = Inr s"
  by (induction s) (auto simp: bindE_def)

lemma withUrl_Inr:
  assumes "withUrl kind it = Inr r"
  shows "itemTitle r = title it"
    and "\<exists>e. encodeURIComponent (js_String (js_or (title it) (JStr []))) = Inr e
             \<and> fallbackUrl r = str ''https://www.g2b.go.kr:8101/ep/tbid/tbidList.do?bidNm='' @ e"
    and "kind = str ''bid'' \<and> truthy (idA it) \<Longrightarrow>
           \<exists>e1 e2. encodeURIComponent (js_String (idA it)) = Inr e1
             \<and> encodeURIComponent (pad2 (js_String (js_or (idB it) (JStr (str ''00''))))) = Inr e2
             \<and> url r = str ''https://www.g2b.go.kr:8081/ep/invitation/publish/bidInfoDtl.do''
                       @ str ''?bidno='' @ e1 @ str ''&bidseq='' @ e2
                       @ str ''&releaseYn=Y&taskClCd=5''"
    and "\<not> (kind = str ''bid'' \<and> truthy (idA it)) \<Longrightarrow> url r = fallbackUrl r"
  using assms
  by (auto simp: withUrl_def mkSearchUrl_def Let_def bindE_Inr split: if_splits)

lemma title_chain:
  "title (mapItem kind x) =
     foldr (\<lambda>k acc. js_or (getProp x k) acc) (titleFields kind) (JStr (str ''Untitled''))"
  by (simp add: mapItem_def titleFields_def js_or_def)

lemmas eval_simps =
  str_def js_or_def js_coalesce_def nullish_def bindE_def
  pickItems_def mapItem_def passes_def hasQ_def withUrl_def mkSearchUrl_def slice0_def
  extractItems_def prettifyAmount_def numberOfDigitsDots_def decimalValue_def
  toLocaleString_def digitsOf.simps showInt_def trim_def isWhite_def pad2_def
  isDigit_def isAlnum_def uriUnreserved_def hexDigit_def utf8_def pct_def
  toInt_def keywordOf_def sliceStr_def asciiLower_def counts_def Let_def



lemmas sample_simps = docThree_def titleAI_def docLong_def qLong_def itemNoTitle_def


text \<open>
  C8. Whenever \<open>extractItems\<close> returns for the handler's options (limit 50), the parsed
  count is at least the matched count, the matched count at least the number of returned
  items, and at most 50 items are returned.
\<close>

theorem C8_counts:
  assumes "extractItems lc raw kind q \<lparr> filterEnabled = fe, limit = Finite 50 \<rparr> = Inr res"
  shows "matchedAfterFilter res \<le> totalItemsParsed res
         \<and> length (items res) \<le> matchedAfterFilter res
         \<and> length (items res) \<le> 50"
proof -
  let ?f = "filter (passes lc fe (trim (lc q))) (map (mapItem kind) (pickItems raw))"
  have lim: "toInt (Finite 50) 50 = 50" by (simp add: toInt_def)
  have l2: "list_all2 (\<lambda>it r. withUrl kind it = Inr r) (slice0 ?f 50) (items res)"
    using extractItems_Inr(1) [OF assms] by (simp add: lim)
  then have len: "length (items res) = length (slice0 ?f 50)"
    by (simp add: list_all2_lengthD)
  have "length ?f \<le> length (pickItems raw)"
    using length_filter_le [of _ "map (mapItem kind) (pickItems raw)"] by simp
  moreover have "length (slice0 ?f 50) \<le> length ?f" by (rule slice0_length)
  moreover have "length (slice0 ?f 50) \<le> 50" using slice0_length_nonneg [of 50 ?f] by simp
  ultimately show ?thesis
    using len extractItems_Inr(2,3) [OF assms] by simp
qed

text \<open>Three items, one with the keyword in its title: 3 parsed, 1 matched, 1 returned.\<close>

theorem C8_counts_witness:
  "map_sum id counts
     (extractItems asciiLower docThree (str ''bid'') (keywordOf (JStr [46020, 47196]))
        \<lparr> filterEnabled = True, limit = Finite 50 \<rparr>) = Inr (3, 1, 1)
   \<and> (case extractItems asciiLower docThree (str ''bid'') (keywordOf (JStr [46020, 47196]))
              \<lparr> filterEnabled = True, limit = Finite 50 \<rparr> of
         Inr res \<Rightarrow> matchedAfterFilter res \<le> totalItemsParsed res
                    \<and> length (items res) \<le> matchedAfterFilter res \<and> length (items res) \<le> 50
       | Inl e \<Rightarrow> False)"
proof -
  let ?E = "extractItems asciiLower docThree (str ''bid'') (keywordOf (JStr [46020, 47196]))
              \<lparr> filterEnabled = True, limit = Finite 50 \<rparr>"
  have v: "map_sum id counts ?E = Inr (3, 1, 1)"
    by (simp add: eval_simps sample_simps)
  then obtain res where r: "?E = Inr res" by (cases ?E) auto
  show ?thesis using v C8_counts [OF r] by (simp add: r)
qed

text \<open>
  C5 (as amended). \<open>extractItems\<close> trims the lower-cased keyword once more. With filtering
  disabled, or with an empty keyword, every mapped record is counted and returned (up to the
  limit); with filtering enabled the records counted and returned are exactly those where
  the lower-cased and trimmed keyword is a substring of the lower-cased title or of the
  lower-cased organization.
\<close>

theorem C5_keyword_filter:
  fixes lc :: "jsstring \<Rightarrow> jsstring"
  assumes "extractItems lc raw kind (keywordOf qv) \<lparr> filterEnabled = fe, limit = lm \<rparr> = Inr res"
  defines "qlc \<equiv> trim (lc (keywordOf qv))"
  defines "mapped \<equiv> map (mapItem kind) (pickItems raw)"
  defines "matches \<equiv> \<lambda>it. sublist qlc (lc (js_String (js_or (title it) (JStr []))))
                         \<or> sublist qlc (lc (js_String (js_or (org it) (JStr []))))"
  shows "(\<not> fe \<or> (keywordOf qv = [] \<and> lc [] = [])
            \<longrightarrow> matchedAfterFilter res = length mapped
                \<and> map itemTitle (items res) = map title (slice0 mapped (toInt lm 50)))
         \<and> (fe \<longrightarrow> matchedAfterFilter res = length (filter matches mapped)
                \<and> map itemTitle (items res)
                    = map title (slice0 (filter matches mapped) (toInt lm 50)))"
proof -
  let ?f = "filter (passes lc fe qlc) mapped"
  have l2: "list_all2 (\<lambda>it r. withUrl kind it = Inr r) (slice0 ?f (toInt lm 50)) (items res)"
    using extractItems_Inr(1) [OF assms(1)] by (simp add: qlc_def mapped_def)
  have titles: "map itemTitle (items res) = map title (slice0 ?f (toInt lm 50))"
    using l2 by (induction rule: list_all2_induct) (auto dest: withUrl_Inr(1))
  have cnt: "matchedAfterFilter res = length ?f"
    using extractItems_Inr(3) [OF assms(1)] by (simp add: qlc_def mapped_def)
  have all: "?f = mapped" if "\<not> fe \<or> (keywordOf qv = [] \<and> lc [] = [])"
  proof -
    have "qlc = []" if "keywordOf qv = [] \<and> lc [] = []"
      using that by (simp add: qlc_def trim_def)
    then have "passes lc fe qlc it" for it
      using \<open>\<not> fe \<or> (keywordOf qv = [] \<and> lc [] = [])\<close> by (auto simp: passes_iff)
    then show ?thesis by simp
  qed
  have sel: "?f = filter matches mapped" if fe
    using that by (intro filter_cong) (auto simp: passes_iff matches_def)
  show ?thesis using titles cnt all sel by auto
qed

text \<open>
  The title \<open>AI\<close> followed by three Hangul words matches the keywords \<open>AI\<close> and the
  second word, not the keyword made of \<open>ai\<close>, the third word and \<open>2\<close>; without
  filtering, or without keyword, all three records pass.
\<close>

theorem C5_keyword_filter_witness:
  "map_sum id (\<lambda>r. (counts r, map itemTitle (items r)))
     (extractItems asciiLower docThree (str ''bid'') (keywordOf (JStr (str '' AI '')))
        \<lparr> filterEnabled = True, limit = Finite 50 \<rparr>) = Inr ((3, 1, 1), [JStr titleAI])
   \<and> map_sum id counts
     (extractItems asciiLower docThree (str ''bid'') (keywordOf (JStr [49884, 49828, 53596]))
        \<lparr> filterEnabled = True, limit = Finite 50 \<rparr>) = Inr (3, 1, 1)
   \<and> map_sum id counts
     (extractItems asciiLower docThree (str ''bid'') (keywordOf (JStr [97, 105, 44396, 52629, 50]))
        \<lparr> filterEnabled = True, limit = Finite 50 \<rparr>) = Inr (3, 0, 0)
   \<and> map_sum id counts
     (extractItems asciiLower docThree (str ''bid'') (keywordOf (JStr [97, 105, 44396, 52629, 50]))
        \<lparr> filterEnabled = False, limit = Finite 50 \<rparr>) = Inr (3, 3, 3)
   \<and> map_sum id counts
     (extractItems asciiLower docThree (str ''bid'') (keywordOf JUndefined)
        \<lparr> filterEnabled = True, limit = Finite 50 \<rparr>) = Inr (3, 3, 3)"
proof -
  let ?E = "extractItems asciiLower docThree (str ''bid'') (keywordOf (JStr (str '' AI '')))
              \<lparr> filterEnabled = True, limit = Finite 50 \<rparr>"
  have v: "map_sum id (\<lambda>r. (counts r, map itemTitle (items r))) ?E = Inr ((3, 1, 1), [JStr titleAI])"
    by (simp add: eval_simps sample_simps)
  then obtain res where r: "?E = Inr res" by (cases ?E) auto
  have rest: "map_sum id counts
     (extractItems asciiLower docThree (str ''bid'') (keywordOf (JStr [49884, 49828, 53596]))
        \<lparr> filterEnabled = True, limit = Finite 50 \<rparr>) = Inr (3, 1, 1)"
    "map_sum id counts
     (extractItems asciiLower docThree (str ''bid'') (keywordOf (JStr [97, 105, 44396, 52629, 50]))
        \<lparr> filterEnabled = True, limit = Finite 50 \<rparr>) = Inr (3, 0, 0)"
    "map_sum id counts
     (extractItems asciiLower docThree (str ''bid'') (keywordOf (JStr [97, 105, 44396, 52629, 50]))
        \<lparr> filterEnabled = False, limit = Finite 50 \<rparr>) = Inr (3, 3, 3)"
    "map_sum id counts
     (extractItems asciiLower docThree (str ''bid'') (keywordOf JUndefined)
        \<lparr> filterEnabled = True, limit = Finite 50 \<rparr>) = Inr (3, 3, 3)"
    by (simp_all add: eval_simps sample_simps)
  show ?thesis using v rest C5_keyword_filter [OF r] by simp
qed

text \<open>
  C5 as stated fails on a keyword of more than 60 characters with a blank at position 60:
  the keyword after truncation is \<open>a\<close> and 59 blanks, its lower-casing is a substring
  neither of the title \<open>a\<close> nor of the empty organization, and the record passes.
\<close>

theorem C5_counterexample:
  "keywordOf qLong = str ''a                                                           ''
   \<and> map_sum id counts
       (extractItems asciiLower docLong (str ''bid'') (keywordOf qLong)
          \<lparr> filterEnabled = True, limit = Finite 50 \<rparr>) = Inr (1, 1, 1)
   \<and> map (mapItem (str ''bid'')) (pickItems docLong)
       = [\<lparr> title = JStr (str ''a''), date = JStr [], time = JStr [], org = JStr [],
            amount = JStr [], status = JStr [], winner = JUndefined, period = JUndefined,
            idA = JStr [], idB = JStr [] \<rparr>]
   \<and> \<not> sublist (asciiLower (keywordOf qLong)) (asciiLower (str ''a''))
   \<and> \<not> sublist (asciiLower (keywordOf qLong)) (asciiLower [])"
  by (simp add: eval_simps sample_simps js_includes_sublist [symmetric])


subsection \<open>Links\<close>

text \<open>
  C7. Every returned record comes from a raw item; its fallback link is the search-listing
  link with the encoded title, and is not empty. For kind \<open>bid\<close> and a truthy notice
  identifier the detail link embeds the encoded identifier and the ordinal, padded to two
  characters and \<open>00\<close> by default; otherwise the detail link is the fallback link.
\<close>

theorem C7_links:
  assumes "extractItems lc raw kind q os = Inr res" and "r \<in> set (items res)"
  shows "\<exists>x \<in> set (pickItems raw).
           itemTitle r = title (mapItem kind x)
           \<and> (\<exists>e. encodeURIComponent (js_String (title (mapItem kind x))) = Inr e
                  \<and> fallbackUrl r
                      = str ''https://www.g2b.go.kr:8101/ep/tbid/tbidList.do?bidNm='' @ e)
           \<and> fallbackUrl r \<noteq> []
           \<and> (if kind = str ''bid'' \<and> truthy (idA (mapItem kind x))
               then \<exists>e1 e2.
                      encodeURIComponent (js_String (idA (mapItem kind x))) = Inr e1
                      \<and> encodeURIComponent
                          (pad2 (js_String (js_or (idB (mapItem kind x)) (JStr (str ''00'')))))
                          = Inr e2
                      \<and> url r = str ''https://www.g2b.go.kr:8081/ep/invitation/publish/bidInfoDtl.do''
                                @ str ''?bidno='' @ e1 @ str ''&bidseq='' @ e2
                                @ str ''&releaseYn=Y&taskClCd=5''
               else url r = fallbackUrl r)"
proof -
  let ?f = "filter (passes lc (filterEnabled os) (trim (lc q))) (map (mapItem kind) (pickItems raw))"
  let ?s = "slice0 ?f (toInt (limit os) 50)"
  have l2: "list_all2 (\<lambda>it r. withUrl kind it = Inr r) ?s (items res)"
    by (rule extractItems_Inr(1) [OF assms(1)])
  obtain i where i: "i < length (items res)" "r = items res ! i"
    using assms(2) by (auto simp: in_set_conv_nth)
  have len: "length ?s = length (items res)"
    using l2 by (rule list_all2_lengthD)
  define it where "it = ?s ! i"
  have it: "it \<in> set ?s" "withUrl kind it = Inr r"
    using i len list_all2_nthD2 [OF l2 i(1)] by (simp_all add: it_def)
  then have "it \<in> set ?f" using slice0_set [of ?f "toInt (limit os) 50"] by (rule_tac subsetD)
  then obtain x where x: "x \<in> set (pickItems raw)" "it = mapItem kind x" by auto
  have w: "withUrl kind (mapItem kind x) = Inr r" using it(2) x(2) by simp
  have tt: "js_or (title (mapItem kind x)) (JStr []) = title (mapItem kind x)"
    using truthy_title [of kind x] by (simp add: js_or_def)
  have A: "itemTitle r = title (mapItem kind x)" by (rule withUrl_Inr(1) [OF w])
  have B: "\<exists>e. encodeURIComponent (js_String (title (mapItem kind x))) = Inr e
                  \<and> fallbackUrl r
                      = str ''https://www.g2b.go.kr:8101/ep/tbid/tbidList.do?bidNm='' @ e"
    using withUrl_Inr(2) [OF w] by (simp only: tt)
  have C: "fallbackUrl r \<noteq> []"
  proof -
    from B obtain e where
      "fallbackUrl r = str ''https://www.g2b.go.kr:8101/ep/tbid/tbidList.do?bidNm='' @ e" by blast
    then show ?thesis by (simp add: str_def)
  qed
  have D: "if kind = str ''bid'' \<and> truthy (idA (mapItem kind x))
               then \<exists>e1 e2.
                      encodeURIComponent (js_String (idA (mapItem kind x))) = Inr e1
                      \<and> encodeURIComponent
                          (pad2 (js_String (js_or (idB (mapItem kind x)) (JStr (str ''00'')))))
                          = Inr e2
                      \<and> url r = str ''https://www.g2b.go.kr:8081/ep/invitation/publish/bidInfoDtl.do''
                                @ str ''?bidno='' @ e1 @ str ''&bidseq='' @ e2
                                @ str ''&releaseYn=Y&taskClCd=5''
               else url r = fallbackUrl r"
  proof (cases "kind = str ''bid'' \<and> truthy (idA (mapItem kind x))")
    case True
    show ?thesis unfolding if_P [OF True] by (rule withUrl_Inr(3) [OF w True])
  next
    case False
    show ?thesis unfolding if_not_P [OF False] by (rule withUrl_Inr(4) [OF w False])
  qed
  show ?thesis
    by (rule bexI [OF _ x(1)]) (intro conjI A B C D)
qed


text \<open>
  The three sample items, kind \<open>bid\<close>: only the second has a notice number (20240101001,
  ordinal 1) and gets the detail link; the third has no title. With kind \<open>award\<close> every
  detail link is the fallback link.
\<close>

theorem C7_links_witness:
  "map_sum id (map url \<circ> items)
     (extractItems asciiLower docThree (str ''bid'') (keywordOf JUndefined)
        \<lparr> filterEnabled = True, limit = Finite 50 \<rparr>)
   = Inr [str ''https://www.g2b.go.kr:8101/ep/tbid/tbidList.do?bidNm=%EB%8F%84%EB%A1%9C%20%EC%A0%95%EB%B9%84'',
          str ''https://www.g2b.go.kr:8081/ep/invitation/publish/bidInfoDtl.do?bidno=20240101001&bidseq=01&releaseYn=Y&taskClCd=5'',
          str ''https://www.g2b.go.kr:8101/ep/tbid/tbidList.do?bidNm=Untitled'']
   \<and> map_sum id (map fallbackUrl \<circ> items)
     (extractItems asciiLower docThree (str ''bid'') (keywordOf JUndefined)
        \<lparr> filterEnabled = True, limit = Finite 50 \<rparr>)
   = Inr [str ''https://www.g2b.go.kr:8101/ep/tbid/tbidList.do?bidNm=%EB%8F%84%EB%A1%9C%20%EC%A0%95%EB%B9%84'',
          str ''https://www.g2b.go.kr:8101/ep/tbid/tbidList.do?bidNm=AI%20%EC%8B%9C%EC%8A%A4%ED%85%9C%20%EA%B5%AC%EC%B6%95'',
          str ''https://www.g2b.go.kr:8101/ep/tbid/tbidList.do?bidNm=Untitled'']
   \<and> map_sum id (map url \<circ> items)
     (extractItems asciiLower docThree (str ''award'') (keywordOf JUndefined)
        \<lparr> filterEnabled = True, limit = Finite 50 \<rparr>)
   = map_sum id (map fallbackUrl \<circ> items)
     (extractItems asciiLower docThree (str ''award'') (keywordOf JUndefined)
        \<lparr> filterEnabled = True, limit = Finite 50 \<rparr>)"
proof -
  let ?E = "extractItems asciiLower docThree (str ''bid'') (keywordOf JUndefined)
              \<lparr> filterEnabled = True, limit = Finite 50 \<rparr>"
  have u: "map_sum id (map url \<circ> items) ?E
   = Inr [str ''https://www.g2b.go.kr:8101/ep/tbid/tbidList.do?bidNm=%EB%8F%84%EB%A1%9C%20%EC%A0%95%EB%B9%84'',
          str ''https://www.g2b.go.kr:8081/ep/invitation/publish/bidInfoDtl.do?bidno=20240101001&bidseq=01&releaseYn=Y&taskClCd=5'',
          str ''https://www.g2b.go.kr:8101/ep/tbid/tbidList.do?bidNm=Untitled'']"
    by (simp add: eval_simps sample_simps)
  have f: "map_sum id (map fallbackUrl \<circ> items) ?E
   = Inr [str ''https://www.g2b.go.kr:8101/ep/tbid/tbidList.do?bidNm=%EB%8F%84%EB%A1%9C%20%EC%A0%95%EB%B9%84'',
          str ''https://www.g2b.go.kr:8101/ep/tbid/tbidList.do?bidNm=AI%20%EC%8B%9C%EC%8A%A4%ED%85%9C%20%EA%B5%AC%EC%B6%95'',
          str ''https://www.g2b.go.kr:8101/ep/tbid/tbidList.do?bidNm=Untitled'']"
    by (simp add: eval_simps sample_simps)
  have a: "map_sum id (map url \<circ> items)
     (extractItems asciiLower docThree (str ''award'') (keywordOf JUndefined)
        \<lparr> filterEnabled = True, limit = Finite 50 \<rparr>)
   = map_sum id (map fallbackUrl \<circ> items)
     (extractItems asciiLower docThree (str ''award'') (keywordOf JUndefined)
        \<lparr> filterEnabled = True, limit = Finite 50 \<rparr>)"
    by (simp add: eval_simps sample_simps)
  obtain res where r: "?E = Inr res" using u by (cases ?E) auto
  then have "items res \<noteq> []" using u by auto
  then have m: "hd (items res) \<in> set (items res)" by simp
  show ?thesis using u f a C7_links [OF r m] by simp
qed


subsection \<open>The title placeholder\<close>

text \<open>
  C10. When every field of the kind's title chain is falsy (absent, empty, \<open>null\<close>, 0 or
  \<open>false\<close>), the title is the literal \<open>Untitled\<close>. With filtering enabled and \<open>qlc\<close> the
  case-folded keyword \<open>extractItems\<close> hands its filter, the record passes if and only if
  \<open>qlc\<close> is a substring of the case-folded placeholder or of the case-folded organization;
  and the fallback search link, in \<open>mkSearchUrl\<close> and in every record \<open>withUrl\<close> returns,
  carries \<open>Untitled\<close> as its search term.
\<close>

theorem C10_placeholder:
  fixes lc :: "jsstring \<Rightarrow> jsstring" and qlc :: jsstring
  assumes "\<forall>k \<in> set (titleFields kind). \<not> truthy (getProp x k)"
  defines "it \<equiv> mapItem kind x"
  shows "title it = JStr (str ''Untitled'')
         \<and> (passes lc True qlc it \<longleftrightarrow>
              sublist qlc (lc (str ''Untitled''))
              \<or> sublist qlc (lc (js_String (js_or (org it) (JStr [])))))
         \<and> mkSearchUrl (title it)
             = Inr (str ''https://www.g2b.go.kr:8101/ep/tbid/tbidList.do?bidNm=Untitled'')
         \<and> (\<forall>r. withUrl kind it = Inr r \<longrightarrow>
               fallbackUrl r = str ''https://www.g2b.go.kr:8101/ep/tbid/tbidList.do?bidNm=Untitled'')"
proof -
  have t: "title it = JStr (str ''Untitled'')"
    using assms(1) unfolding it_def title_chain by (simp add: titleFields_def js_or_def)
  have p: "passes lc True qlc it \<longleftrightarrow>
              sublist qlc (lc (str ''Untitled''))
              \<or> sublist qlc (lc (js_String (js_or (org it) (JStr []))))"
    by (simp add: passes_iff t js_or_def str_def)
  have e: "encodeURIComponent (str ''Untitled'') = Inr (str ''Untitled'')"
    by (rule encodeURIComponent_unreserved) (simp add: str_def uriUnreserved_def isAlnum_def isDigit_def)
  have m: "mkSearchUrl (title it)
             = Inr (str ''https://www.g2b.go.kr:8101/ep/tbid/tbidList.do?bidNm=Untitled'')"
    using e by (simp add: mkSearchUrl_def t js_or_def bindE_def str_def)
  have f: "fallbackUrl r = str ''https://www.g2b.go.kr:8101/ep/tbid/tbidList.do?bidNm=Untitled''"
    if "withUrl kind it = Inr r" for r
    using withUrl_Inr(2) [OF that] e by (auto simp: t js_or_def str_def)
  show ?thesis using t p m f by blast
qed



text \<open>The sample item without a title: the keyword \<open>UNT\<close> selects it alone.\<close>

theorem C10_placeholder_witness:
  "list_all (\<lambda>k. \<not> truthy (getProp itemNoTitle k)) (titleFields (str ''bid''))
   \<and> title (mapItem (str ''bid'') itemNoTitle) = JStr (str ''Untitled'')
   \<and> map_sum id (\<lambda>r. (counts r, map fallbackUrl (items r)))
        (extractItems asciiLower docThree (str ''bid'') (keywordOf (JStr (str ''UNT'')))
           \<lparr> filterEnabled = True, limit = Finite 50 \<rparr>)
      = Inr ((3, 1, 1), [str ''https://www.g2b.go.kr:8101/ep/tbid/tbidList.do?bidNm=Untitled''])"
proof -
  have h: "\<forall>k \<in> set (titleFields (str ''bid'')). \<not> truthy (getProp itemNoTitle k)"
    by (simp add: titleFields_def itemNoTitle_def)
  have e: "map_sum id (\<lambda>r. (counts r, map fallbackUrl (items r)))
        (extractItems asciiLower docThree (str ''bid'') (keywordOf (JStr (str ''UNT'')))
           \<lparr> filterEnabled = True, limit = Finite 50 \<rparr>)
      = Inr ((3, 1, 1), [str ''https://www.g2b.go.kr:8101/ep/tbid/tbidList.do?bidNm=Untitled''])"
    by (simp add: eval_simps sample_simps)
  show ?thesis using h e C10_placeholder [OF h, of asciiLower "str ''unt''"] by (simp add: list_all_iff)
qed


subsection \<open>Amounts\<close>




lemma digitsOf_nonempty: "digitsOf n \<noteq> []"
  by (subst digitsOf.simps) simp











subsection \<open>The date window\<close>

lemma div_step:
  fixes x n :: int
  assumes "1 < n"
  shows "(x + 1) div n = x div n + (if (x + 1) mod n = 0 then 1 else 0)"
proof -
  define r where "r = x mod n"
  have r: "0 \<le> r" "r < n" using assms by (simp_all add: r_def)
  have one: "1 div n = 0" "1 mod n = 1" using assms by simp_all
  have d: "(x + 1) div n = x div n + (r + 1) div n"
    using div_add1_eq [of x 1 n] by (simp add: one r_def)
  have "(x + 1) mod n = (x mod n + 1) mod n" by (rule mod_add_left_eq [symmetric])
  then have m: "(x + 1) mod n = (r + 1) mod n" by (simp add: r_def)
  show ?thesis
  proof (cases "r + 1 = n")
    case True
    then show ?thesis using d m assms by simp
  next
    case False
    then have "r + 1 < n" using r by simp
    then have "(r + 1) div n = 0" "(r + 1) mod n = r + 1" using r by simp_all
    then show ?thesis using d m r by simp
  qed
qed

lemma dayFromYear_Suc: "dayFromYear (y + 1) = dayFromYear y + daysInYear y"
proof -
  have a: "(y + 1 - 1969) div 4 = (y - 1969) div 4 + (if y mod 4 = 0 then 1 else 0)"
  proof -
    have "(y - 1968) mod 4 = (y + 4 * (- 492)) mod 4" by simp
    also have "\<dots> = y mod 4" by (rule mod_mult_self2)
    finally have "(y - 1968) mod 4 = y mod 4" .
    then show ?thesis using div_step [of 4 "y - 1969"] by simp
  qed
  have b: "(y + 1 - 1901) div 100 = (y - 1901) div 100 + (if y mod 100 = 0 then 1 else 0)"
  proof -
    have "(y - 1900) mod 100 = (y + 100 * (- 19)) mod 100" by simp
    also have "\<dots> = y mod 100" by (rule mod_mult_self2)
    finally have "(y - 1900) mod 100 = y mod 100" .
    then show ?thesis using div_step [of 100 "y - 1901"] by simp
  qed
  have c: "(y + 1 - 1601) div 400 = (y - 1601) div 400 + (if y mod 400 = 0 then 1 else 0)"
  proof -
    have "(y - 1600) mod 400 = (y + 400 * (- 4)) mod 400" by simp
    also have "\<dots> = y mod 400" by (rule mod_mult_self2)
    finally have "(y - 1600) mod 400 = y mod 400" .
    then show ?thesis using div_step [of 400 "y - 1601"] by simp
  qed
  have d: "y mod 100 = 0 \<Longrightarrow> y mod 4 = 0"
  proof -
    assume "y mod 100 = 0"
    then have "100 dvd y" by (simp add: mod_eq_0_iff_dvd)
    moreover have "(4::int) dvd 100" by simp
    ultimately have "4 dvd y" by (rule dvd_trans [rotated])
    then show ?thesis by (simp add: mod_eq_0_iff_dvd)
  qed
  have e: "y mod 400 = 0 \<Longrightarrow> y mod 100 = 0"
  proof -
    assume "y mod 400 = 0"
    then have "400 dvd y" by (simp add: mod_eq_0_iff_dvd)
    moreover have "(100::int) dvd 400" by simp
    ultimately have "100 dvd y" by (rule dvd_trans [rotated])
    then show ?thesis by (simp add: mod_eq_0_iff_dvd)
  qed
  show ?thesis
    unfolding dayFromYear_def daysInYear_def a b c using d e by auto
qed

lemma dayFromYear_mono_nat: "dayFromYear y + 365 * int n \<le> dayFromYear (y + int n)"
proof (induction n)
  case 0
  then show ?case by simp
next
  case (Suc n)
  have "dayFromYear (y + int n + 1) = dayFromYear (y + int n) + daysInYear (y + int n)"
    by (rule dayFromYear_Suc)
  moreover have "365 \<le> daysInYear (y + int n)" by (simp add: daysInYear_def)
  ultimately show ?case using Suc by (simp add: algebra_simps)
qed

lemma dayFromYear_upper_nat: "dayFromYear (y + int n) \<le> dayFromYear y + 366 * int n"
proof (induction n)
  case 0
  then show ?case by simp
next
  case (Suc n)
  have "dayFromYear (y + int n + 1) = dayFromYear (y + int n) + daysInYear (y + int n)"
    by (rule dayFromYear_Suc)
  moreover have "daysInYear (y + int n) \<le> 366" by (simp add: daysInYear_def)
  ultimately show ?case using Suc by (simp add: algebra_simps)
qed

lemma dayFromYear_strict: "y1 < y2 \<Longrightarrow> dayFromYear y1 < dayFromYear y2"
proof -
  assume less: "y1 < y2"
  define n where "n = nat (y2 - y1)"
  have n: "y2 = y1 + int n" "0 < n" using less by (simp_all add: n_def)
  then show ?thesis using dayFromYear_mono_nat [of y1 n] by simp
qed

lemma dayFromYear_1970: "dayFromYear 1970 = 0"
  by (simp add: dayFromYear_def)

lemma yearFrom_spec:
  "start = dayFromYear y \<Longrightarrow> start \<le> d \<Longrightarrow>
     dayFromYear (yearFrom y start d) \<le> d \<and> d < dayFromYear (yearFrom y start d + 1)"
proof (induction y start d rule: yearFrom.induct)
  case (1 y start d)
  have next_start: "start + daysInYear y = dayFromYear (y + 1)"
    using "1.prems"(1) by (simp add: dayFromYear_Suc)
  show ?case
  proof (cases "start + daysInYear y \<le> d")
    case True
    then show ?thesis using "1.IH" [OF True next_start True]
      by (subst (1 2) yearFrom.simps) simp
  next
    case False
    then show ?thesis using "1.prems" next_start
      by (subst (1 2) yearFrom.simps) simp
  qed
qed

lemma start_below: "dayFromYear (1970 + (if 0 \<le> d then d div 366 else d div 365)) \<le> d"
proof (cases "0 \<le> d")
  case True
  define k where "k = d div 366"
  have k: "0 \<le> k" using True by (simp add: k_def pos_imp_zdiv_nonneg_iff)
  have "0 \<le> d mod 366" by simp
  moreover have "d = 366 * k + d mod 366" by (simp add: k_def)
  ultimately have le: "366 * k \<le> d" by linarith
  have "dayFromYear (1970 + int (nat k)) \<le> dayFromYear 1970 + 366 * int (nat k)"
    by (rule dayFromYear_upper_nat)
  then have "dayFromYear (1970 + k) \<le> 366 * k" using k by (simp add: dayFromYear_1970)
  then show ?thesis using True le by (simp add: k_def)
next
  case False
  define k where "k = d div 365"
  have k: "k < 0" using False by (simp add: k_def neg_imp_zdiv_neg_iff)
  have "0 \<le> d mod 365" by simp
  moreover have "d = 365 * k + d mod 365" by (simp add: k_def)
  ultimately have le: "365 * k \<le> d" by linarith
  have "dayFromYear (1970 + k) + 365 * int (nat (- k)) \<le> dayFromYear (1970 + k + int (nat (- k)))"
    by (rule dayFromYear_mono_nat)
  then have "dayFromYear (1970 + k) \<le> 365 * k" using k by (simp add: dayFromYear_1970)
  then show ?thesis using False le by (simp add: k_def)
qed

lemma yearFromDay_spec:
  "dayFromYear (yearFromDay d) \<le> d \<and> d < dayFromYear (yearFromDay d + 1)"
  unfolding yearFromDay_def Let_def by (rule yearFrom_spec [OF refl start_below])

lemma yearFromDay_mono: "d1 \<le> d2 \<Longrightarrow> yearFromDay d1 \<le> yearFromDay d2"
proof (rule ccontr)
  assume le: "d1 \<le> d2" and "\<not> yearFromDay d1 \<le> yearFromDay d2"
  then have "yearFromDay d2 + 1 \<le> yearFromDay d1" by simp
  then have "dayFromYear (yearFromDay d2 + 1) \<le> dayFromYear (yearFromDay d1)"
    using dayFromYear_strict [of "yearFromDay d2 + 1" "yearFromDay d1"]
    by (cases "yearFromDay d2 + 1 = yearFromDay d1") auto
  then show False using yearFromDay_spec [of d1] yearFromDay_spec [of d2] le by linarith
qed

lemma dayWithinYear_range:
  "0 \<le> d - dayFromYear (yearFromDay d)
   \<and> d - dayFromYear (yearFromDay d) < 365 + inLeapYear (yearFromDay d)"
proof -
  have "daysInYear y = 365 + inLeapYear y" for y
    by (simp add: inLeapYear_def daysInYear_def)
  then show ?thesis
    using yearFromDay_spec [of d] dayFromYear_Suc [of "yearFromDay d"] by simp
qed

lemma inLeapYear_cases: "inLeapYear y = 0 \<or> inLeapYear y = 1"
  by (simp add: inLeapYear_def)

lemma monthFromDay_mono:
  "leap = 0 \<or> leap = 1 \<Longrightarrow> dw1 \<le> dw2 \<Longrightarrow> monthFromDay leap dw1 \<le> monthFromDay leap dw2"
  unfolding monthFromDay_def by (auto split: if_splits)

lemma daysFromCivil_utcYmd: "daysFromCivil (utcYmd t) = Day t"
  by (simp add: daysFromCivil_def utcYmd_def Let_def)

lemma utcYmd_mono:
  assumes "Day t1 \<le> Day t2"
  shows "ymd_le (utcYmd t1) (utcYmd t2)"
proof -
  let ?y1 = "yearFromDay (Day t1)" and ?y2 = "yearFromDay (Day t2)"
  have y: "?y1 \<le> ?y2" by (rule yearFromDay_mono [OF assms])
  show ?thesis
  proof (cases "?y1 = ?y2")
    case False
    then show ?thesis using y by (simp add: ymd_le_def utcYmd_def Let_def)
  next
    case True
    let ?L = "inLeapYear ?y1"
    let ?dw1 = "Day t1 - dayFromYear ?y1" and ?dw2 = "Day t2 - dayFromYear ?y1"
    have dw: "?dw1 \<le> ?dw2" using assms by simp
    have m: "monthFromDay ?L ?dw1 \<le> monthFromDay ?L ?dw2"
      by (rule monthFromDay_mono [OF inLeapYear_cases dw])
    show ?thesis using m dw True [symmetric]
      by (auto simp: ymd_le_def utcYmd_def Let_def)
  qed
qed

lemma Day_shift: "Day (t - k * msPerDay) = Day t - k"
proof -
  have "(t + (- k) * msPerDay) div msPerDay = (- k) + t div msPerDay"
    by (rule div_mult_self1) (simp add: msPerDay_def)
  moreover have "t - k * msPerDay = t + (- k) * msPerDay" by simp
  ultimately show ?thesis by (simp only: Day_def)
qed


lemma utcYmd_valid:
  "case utcYmd t of (y, m, day) \<Rightarrow>
     m < 12 \<and> 1 \<le> day
     \<and> day \<le> monthStart (inLeapYear y) (Suc m) - monthStart (inLeapYear y) m"
proof -
  let ?y = "yearFromDay (Day t)"
  let ?dw = "Day t - dayFromYear ?y"
  have r: "0 \<le> ?dw" "?dw < 365 + inLeapYear ?y" using dayWithinYear_range [of "Day t"] by simp_all
  have "inLeapYear ?y = 0 \<or> inLeapYear ?y = 1" by (rule inLeapYear_cases)
  then show ?thesis using r
    by (auto simp: utcYmd_def Let_def monthFromDay_def monthStart_def)
qed

text \<open>
  C4. \<open>daysBack\<close> is 6 for kind \<open>award\<close> and 29 for \<open>bid\<close> and \<open>contract\<close>. For every
  clock value and kind, with \<open>toKst\<close> the clock shifted by nine hours and \<open>fromKst\<close> that
  instant \<open>daysBack\<close> days earlier, the calendar date of \<open>fromKst\<close> is not after that of
  \<open>toKst\<close>, and the day numbers of the two dates differ by exactly \<open>daysBack\<close>.
\<close>

theorem C4_date_window:
  fixes now :: int and kind :: jsstring
  defines "toKst \<equiv> getNowKstDate now"
  defines "fromKst \<equiv> toKst - daysBack kind * (24 * 60 * 60 * 1000)"
  shows "daysBack (str ''award'') = 6 \<and> daysBack (str ''bid'') = 29
         \<and> daysBack (str ''contract'') = 29
         \<and> ymd_le (utcYmd fromKst) (utcYmd toKst)
         \<and> daysFromCivil (utcYmd toKst) - daysFromCivil (utcYmd fromKst) = daysBack kind"
proof -
  have k: "daysBack (str ''award'') = 6" "daysBack (str ''bid'') = 29"
    "daysBack (str ''contract'') = 29"
    by (simp_all add: daysBack_def str_def)
  have f: "fromKst = toKst - daysBack kind * msPerDay" by (simp add: fromKst_def msPerDay_def)
  have d: "Day fromKst = Day toKst - daysBack kind" unfolding f by (rule Day_shift)
  have "0 \<le> daysBack kind" by (simp add: daysBack_def)
  then have "Day fromKst \<le> Day toKst" using d by simp
  then have le: "ymd_le (utcYmd fromKst) (utcYmd toKst)" by (rule utcYmd_mono)
  have span: "daysFromCivil (utcYmd toKst) - daysFromCivil (utcYmd fromKst) = daysBack kind"
    using d by (simp add: daysFromCivil_utcYmd)
  show ?thesis by (intro conjI k le span)
qed

text \<open>A year is determined by the days it starts and ends on.\<close>

lemma yearFromDay_unique:
  assumes "dayFromYear y \<le> d" and "d < dayFromYear (y + 1)"
  shows "yearFromDay d = y"
proof (rule ccontr)
  assume ne: "yearFromDay d \<noteq> y"
  note sp = yearFromDay_spec [of d]
  show False
  proof (cases "yearFromDay d < y")
    case True
    then have "dayFromYear (yearFromDay d + 1) \<le> dayFromYear y"
      using dayFromYear_strict [of "yearFromDay d + 1" y]
      by (cases "yearFromDay d + 1 = y") auto
    then show False using sp assms by linarith
  next
    case False
    then have "y + 1 \<le> yearFromDay d" using ne by simp
    then have "dayFromYear (y + 1) \<le> dayFromYear (yearFromDay d)"
      using dayFromYear_strict [of "y + 1" "yearFromDay d"]
      by (cases "y + 1 = yearFromDay d") auto
    then show False using sp assms by linarith
  qed
qed

lemma yearFromDay_2024: "19723 \<le> d \<Longrightarrow> d < 20089 \<Longrightarrow> yearFromDay d = 2024"
  by (rule yearFromDay_unique) (simp_all add: dayFromYear_def)

lemmas date_simps = getNowKstDate_def daysBack_def fmtYmd_def utcYmd_def Day_def msPerDay_def
  yearFromDay_2024 dayFromYear_def daysInYear_def inLeapYear_def monthFromDay_def
  monthStart_def daysFromCivil_def ymd_le_def

text \<open>
  At 2024-03-01 00:00 UTC (09:00 in Korea) the window ends on 20240301 and starts on
  20240224 (award) or 20240201 (bid); the Korean date changes at 15:00 UTC.
\<close>

theorem C4_date_window_witness:
  "fmtYmd (getNowKstDate 1709251200000) = str ''20240301''
   \<and> fmtYmd (getNowKstDate 1709251200000 - daysBack (str ''award'') * (24 * 60 * 60 * 1000))
       = str ''20240224''
   \<and> fmtYmd (getNowKstDate 1709251200000 - daysBack (str ''bid'') * (24 * 60 * 60 * 1000))
       = str ''20240201''
   \<and> fmtYmd (getNowKstDate 1709218800000) = str ''20240301''
   \<and> fmtYmd (getNowKstDate 1709218799999) = str ''20240229''
   \<and> ymd_le (utcYmd (getNowKstDate 1709251200000 - daysBack (str ''bid'') * (24 * 60 * 60 * 1000)))
        (utcYmd (getNowKstDate 1709251200000))"
proof -
  have u1: "utcYmd (getNowKstDate 1709251200000) = (2024, 2, 1)"
    unfolding utcYmd_def Let_def by (simp add: date_simps)
  have u2: "utcYmd (getNowKstDate 1709251200000 - daysBack (str ''award'') * (24 * 60 * 60 * 1000))
              = (2024, 1, 24)"
    unfolding utcYmd_def Let_def by (simp add: date_simps str_def)
  have u3: "utcYmd (getNowKstDate 1709251200000 - daysBack (str ''bid'') * (24 * 60 * 60 * 1000))
              = (2024, 1, 1)"
    unfolding utcYmd_def Let_def by (simp add: date_simps str_def)
  have u4: "utcYmd (getNowKstDate 1709218800000) = (2024, 2, 1)"
    unfolding utcYmd_def Let_def by (simp add: date_simps)
  have u5: "utcYmd (getNowKstDate 1709218799999) = (2024, 1, 29)"
    unfolding utcYmd_def Let_def by (simp add: date_simps)
  have e1: "fmtYmd (getNowKstDate 1709251200000) = str ''20240301''"
    unfolding fmtYmd_def u1 by (simp add: eval_simps)
  have e2: "fmtYmd (getNowKstDate 1709251200000 - daysBack (str ''award'') * (24 * 60 * 60 * 1000))
       = str ''20240224''"
    unfolding fmtYmd_def u2 by (simp add: eval_simps)
  have e3: "fmtYmd (getNowKstDate 1709251200000 - daysBack (str ''bid'') * (24 * 60 * 60 * 1000))
       = str ''20240201''"
    unfolding fmtYmd_def u3 by (simp add: eval_simps)
  have e4: "fmtYmd (getNowKstDate 1709218800000) = str ''20240301''"
    unfolding fmtYmd_def u4 by (simp add: eval_simps)
  have e5: "fmtYmd (getNowKstDate 1709218799999) = str ''20240229''"
    unfolding fmtYmd_def u5 by (simp add: eval_simps)
  have "ymd_le (utcYmd (getNowKstDate 1709251200000 - daysBack (str ''bid'') * (24 * 60 * 60 * 1000)))
          (utcYmd (getNowKstDate 1709251200000))"
    using C4_date_window [where now = 1709251200000 and kind = "str ''bid''"] by blast
  then show ?thesis by (intro conjI e1 e2 e3 e4 e5)
qed


subsection \<open>The handler\<close>

lemma normalizeKind_cases:
  "normalizeKind lc v = str ''bid'' \<or> normalizeKind lc v = str ''award''
   \<or> normalizeKind lc v = str ''contract''"
  by (simp add: normalizeKind_def Let_def)

lemma endpointByKind_normalizeKind: "\<exists>e. endpointByKind (normalizeKind lc v) = Some e"
  using normalizeKind_cases [of lc v] by (auto simp: endpointByKind_def Let_def)

lemma serve_code: "serve w req kind sk e = Inr resp \<Longrightarrow> code resp = 200"
  unfolding serve_def Let_def bindE_Inr by (elim exE conjE) (simp add: sum.inject [symmetric] del: sum.inject, auto)

lemma proceed_code:
  assumes "proceed w req kind = Inr resp" and "endpointByKind kind = Some e"
  shows "code resp = 200 \<or> code resp = 500"
proof (cases "truthy (serviceKeyEnv w)")
  case False
  then show ?thesis using assms(1) by (auto simp: proceed_def Let_def)
next
  case True
  then obtain sk where "serve w req kind sk e = Inr resp"
    using assms by (auto simp: proceed_def Let_def bindE_Inr)
  then show ?thesis using serve_code by blast
qed

lemma handler_code:
  "code (handler w req) = 200 \<or> code (handler w req) = 204 \<or> code (handler w req) = 500"
proof (cases "httpMethod req = str ''OPTIONS''")
  case True
  then show ?thesis by (simp add: handler_def)
next
  case False
  obtain e where e: "endpointByKind (normalizeKind (toLowerCase w) (query req ''kind'')) = Some e"
    using endpointByKind_normalizeKind by blast
  show ?thesis
  proof (cases "proceed w req (normalizeKind (toLowerCase w) (query req ''kind''))")
    case (Inl x)
    then show ?thesis using False by (simp add: handler_def)
  next
    case (Inr resp)
    then show ?thesis using False proceed_code [OF Inr e] by (auto simp: handler_def)
  qed
qed

lemma fetchJsonUpstream_rejected:
  "fetch w u = Rejected msg \<Longrightarrow>
     fetchJsonUpstream w u
       = Inl (Error (str ''Upstream 599: '' @ sliceStr 0 200 (str ''Fetch failed: '' @ msg)))"
  by (simp add: fetchJsonUpstream_def fetchTextWithTimeout_def eval_simps)

lemma fetchPages_rejected:
  assumes "\<And>u. fetch w u = Rejected msg"
  shows "fetchPages w e ps n p mx
         = Inl (Error (str ''Upstream 599: '' @ sliceStr 0 200 (str ''Fetch failed: '' @ msg)))"
  unfolding fetchPages_def fetchJsonUpstream_rejected [OF assms] by (simp add: bindE_def)

lemma handler_first_page_rejected:
  assumes "httpMethod req \<noteq> str ''OPTIONS''" and "truthy (serviceKeyEnv w)"
    and "normalizeServiceKey (serviceKeyEnv w) = Inr sk"
    and "\<And>u. fetch w u = Rejected msg"
  shows "handler w req
         = \<lparr> code = 500,
             body = ProxyFailed (Error (str ''Upstream 599: ''
                      @ sliceStr 0 200 (str ''Fetch failed: '' @ msg))) \<rparr>"
proof -
  obtain e where e: "endpointByKind (normalizeKind (toLowerCase w) (query req ''kind'')) = Some e"
    using endpointByKind_normalizeKind by blast
  have s: "serve w req kind sk e
       = Inl (Error (str ''Upstream 599: '' @ sliceStr 0 200 (str ''Fetch failed: '' @ msg)))"
    for kind
    unfolding serve_def Let_def fetchPages_rejected [OF assms(4)] by (simp add: bindE_def)
  show ?thesis
    unfolding handler_def proceed_def Let_def
    by (simp add: assms(1,2,3) e s bindE_def)
qed

text \<open>
  C9. With \<open>k\<close> the lower-cased, trimmed kind parameter (\<open>bid\<close> when the parameter is
  falsy): when \<open>k\<close> is none of \<open>bid\<close>, \<open>award\<close>, \<open>contract\<close>, \<open>normalizeKind\<close> gives
  \<open>bid\<close> and the handler answers as it does for kind \<open>bid\<close>. The normalized kind always
  has an endpoint, and the handler never answers 400.
\<close>

theorem C9_kind_default:
  fixes w :: world and req :: request
  defines "k \<equiv> trim (toLowerCase w (js_String (js_or (query req ''kind'') (JStr (str ''bid'')))))"
  shows "(k \<noteq> str ''bid'' \<and> k \<noteq> str ''award'' \<and> k \<noteq> str ''contract''
            \<longrightarrow> normalizeKind (toLowerCase w) (query req ''kind'') = str ''bid''
                \<and> (httpMethod req \<noteq> str ''OPTIONS''
                     \<longrightarrow> handler w req
                          = (case proceed w req (str ''bid'') of
                               Inr resp \<Rightarrow> resp
                             | Inl e \<Rightarrow> \<lparr> code = 500, body = ProxyFailed e \<rparr>)))
         \<and> (\<exists>e. endpointByKind (normalizeKind (toLowerCase w) (query req ''kind'')) = Some e)
         \<and> code (handler w req) \<noteq> 400"
proof -
  have n: "normalizeKind (toLowerCase w) (query req ''kind'') = str ''bid''"
    if "k \<noteq> str ''bid'' \<and> k \<noteq> str ''award'' \<and> k \<noteq> str ''contract''"
    using that by (simp add: normalizeKind_def k_def Let_def)
  have h: "handler w req
            = (case proceed w req (str ''bid'') of
                 Inr resp \<Rightarrow> resp
               | Inl e \<Rightarrow> \<lparr> code = 500, body = ProxyFailed e \<rparr>)"
    if "k \<noteq> str ''bid'' \<and> k \<noteq> str ''award'' \<and> k \<noteq> str ''contract''"
      and "httpMethod req \<noteq> str ''OPTIONS''"
    using that(2) n [OF that(1)] by (simp add: handler_def)
  have c: "code (handler w req) \<noteq> 400" using handler_code [of w req] by auto
  show ?thesis using n h c endpointByKind_normalizeKind by blast
qed

lemma worldDown_key: "normalizeServiceKey (serviceKeyEnv worldDown) = Inr (str ''key'')"
  by (simp add: worldDown_def normalizeServiceKey_def eval_simps)

text \<open>The kind \<open>Tender\<close> is served as a request without kind is.\<close>

theorem C9_kind_default_witness:
  "trim (asciiLower (js_String (js_or (JStr (str ''Tender'')) (JStr (str ''bid''))))) = str ''tender''
   \<and> normalizeKind asciiLower (JStr (str ''Tender'')) = str ''bid''
   \<and> normalizeKind asciiLower (JStr (str '' AWARD '')) = str ''award''
   \<and> handler worldDown reqTender = handler worldDown reqPlain
   \<and> code (handler worldDown reqTender) = 500
   \<and> code (handler worldDown reqTender) \<noteq> 400"
proof -
  have a: "trim (asciiLower (js_String (js_or (JStr (str ''Tender'')) (JStr (str ''bid''))))) = str ''tender''"
    "normalizeKind asciiLower (JStr (str ''Tender'')) = str ''bid''"
    "normalizeKind asciiLower (JStr (str '' AWARD '')) = str ''award''"
    by (simp_all add: normalizeKind_def eval_simps)
  have m: "httpMethod reqTender \<noteq> str ''OPTIONS''" "httpMethod reqPlain \<noteq> str ''OPTIONS''"
    by (simp_all add: reqTender_def reqPlain_def str_def)
  have t: "truthy (serviceKeyEnv worldDown)" by (simp add: worldDown_def str_def)
  have f: "fetch worldDown u = Rejected (str ''The operation was aborted'')" for u
    by (simp add: worldDown_def)
  have h1: "handler worldDown reqTender = handler worldDown reqPlain"
    using handler_first_page_rejected [OF m(1) t worldDown_key f]
      handler_first_page_rejected [OF m(2) t worldDown_key f] by simp
  have h2: "code (handler worldDown reqTender) = 500"
    using handler_first_page_rejected [OF m(1) t worldDown_key f] by simp
  have h3: "code (handler worldDown reqTender) \<noteq> 400"
    using C9_kind_default [of worldDown reqTender] by blast
  show ?thesis by (intro conjI a h1 h2 h3)
qed

text \<open>
  C2. When the fetch of the first page is aborted by the timeout, the handler's catch-all
  answers with status 500 and the payload \<open>Proxy failed\<close>, whose message is that of the
  thrown error: the synthetic status 599 and the start of the body, without the URL. No
  item payload is returned.
\<close>

theorem C2_upstream_failure_status:
  "handler worldDown reqPlain
   = \<lparr> code = 500,
       body = ProxyFailed (Error (str ''Upstream 599: Fetch failed: The operation was aborted'')) \<rparr>"
proof -
  have m: "httpMethod reqPlain \<noteq> str ''OPTIONS''" by (simp add: reqPlain_def str_def)
  have t: "truthy (serviceKeyEnv worldDown)" by (simp add: worldDown_def str_def)
  have f: "fetch worldDown u = Rejected (str ''The operation was aborted'')" for u
    by (simp add: worldDown_def)
  have s: "str ''Upstream 599: '' @ sliceStr 0 200 (str ''Fetch failed: '' @ str ''The operation was aborted'')
           = str ''Upstream 599: Fetch failed: The operation was aborted''"
    by (simp add: eval_simps)
  show ?thesis
    using handler_first_page_rejected [OF m t worldDown_key f] by (simp only: s)
qed


end
